theory Spec2Isabelle
  imports Main
begin

section \<open>JavaScript values used by the route handlers\<close>

text \<open>
  Strings are lists of code units below 256. A JavaScript Number that holds an integer is
  modelled by that integer (\<open>int\<close>); the model is exact for magnitudes up to
  \<open>2 ^ 53\<close>, where a double holds every integer and a division by a power of two
  loses nothing. \<open>NaN\<close> is \<open>None\<close>.
\<close>

text \<open>
  An optional string stands for a request field or an environment variable: \<open>None\<close>
  is \<open>undefined\<close> or \<open>null\<close>. The test \<open>!x\<close> of the source is
  \<open>\<not> truthy x\<close>: the empty string is falsy too.
\<close>

definition truthy :: "string option \<Rightarrow> bool" where
  "truthy x = (case x of None \<Rightarrow> False | Some s \<Rightarrow> s \<noteq> [])"

definition str :: "string option \<Rightarrow> string" where
  "str x = (case x of None \<Rightarrow> [] | Some s \<Rightarrow> s)"

subsection \<open>\<open>parseInt(s, 10)\<close>\<close>

text \<open>
  A Number is a double: it holds an integer exactly when the magnitude is at most
  \<open>2 ^ 53\<close>, and a sum of two such integers that stays in this range is exact.
\<close>

definition safeInteger :: "int \<Rightarrow> bool" where
  "safeInteger n = (\<bar>n\<bar> \<le> 2 ^ 53)"

text \<open>
  ECMAScript \<open>parseInt\<close> with radix 10: leading white space is dropped, one sign is
  read, then the longest run of decimal digits; no digit at all gives \<open>NaN\<close>.
  Whatever follows the digits is ignored. The result here is the integer that the digits
  denote. JavaScript returns the double nearest to it (\<open>Infinity\<close> for very long
  runs of digits), which is this integer when it is a \<open>safeInteger\<close>: a statement
  about the parsed value holds of the code under that condition only.
\<close>

definition isWhiteSpace :: "char \<Rightarrow> bool" where
  "isWhiteSpace c = ((of_char c :: nat) \<in> {9, 10, 11, 12, 13, 32, 160})"

definition digitVal :: "char \<Rightarrow> nat option" where
  "digitVal = map_of
     [(CHR ''0'', 0), (CHR ''1'', 1), (CHR ''2'', 2), (CHR ''3'', 3), (CHR ''4'', 4),
      (CHR ''5'', 5), (CHR ''6'', 6), (CHR ''7'', 7), (CHR ''8'', 8), (CHR ''9'', 9)]"

definition isDigit :: "char \<Rightarrow> bool" where
  "isDigit c = (digitVal c \<noteq> None)"

fun mathInt :: "nat \<Rightarrow> string \<Rightarrow> nat" where
  "mathInt acc [] = acc"
| "mathInt acc (c # cs) =
     mathInt (10 * acc + (case digitVal c of None \<Rightarrow> 0 | Some d \<Rightarrow> d)) cs"

definition parseInt :: "string \<Rightarrow> int option" where
  "parseInt s =
     (let t = dropWhile isWhiteSpace s;
          sign = (if take 1 t = ''-'' then - 1 else 1 :: int);
          u = (if take 1 t = ''-'' \<or> take 1 t = ''+'' then drop 1 t else t);
          z = takeWhile isDigit u
      in if z = [] then None else Some (sign * int (mathInt 0 z)))"

subsection \<open>Numbers to strings\<close>

definition digitChar :: "nat \<Rightarrow> char" where
  "digitChar d = ''0123456789'' ! (d mod 10)"

fun digits :: "nat \<Rightarrow> string" where
  "digits n = (if n < 10 then [digitChar n] else digits (n div 10) @ [digitChar (n mod 10)])"

declare digits.simps [simp del]

text \<open>The template \<open>`${n}`\<close> on an integer Number (below \<open>10 ^ 21\<close> in magnitude).\<close>

definition numberToString :: "int \<Rightarrow> string" where
  "numberToString n = (if n < 0 then CHR ''-'' # digits (nat (- n)) else digits (nat n))"

text \<open>
  \<open>(n / d).toFixed(2)\<close> for an integer \<open>n\<close> and a power of two \<open>d\<close>, so that the
  quotient is exact. ECMAScript takes the integer \<open>m\<close> for which \<open>m / 100 - x\<close> is
  closest to zero, the larger one of two, after moving a minus sign of \<open>x\<close> in front:
  \<open>hundredths\<close> is that \<open>m\<close> for \<open>x = n / d\<close> with \<open>0 \<le> n\<close>.
\<close>

definition hundredths :: "int \<Rightarrow> int \<Rightarrow> int" where
  "hundredths n d = (200 * n + d) div (2 * d)"

definition fixed2 :: "int \<Rightarrow> string" where
  "fixed2 m = digits (nat (m div 100)) @ ''.'' @
     [digitChar (nat (m mod 100 div 10)), digitChar (nat (m mod 10))]"

definition toFixed2 :: "int \<Rightarrow> int \<Rightarrow> string" where
  "toFixed2 n d =
     (if n < 0 then CHR ''-'' # fixed2 (hundredths (- n) d) else fixed2 (hundredths n d))"

section \<open>The metadata route: \<open>src/app/api/upload/route.ts\<close>\<close>

subsection \<open>Data\<close>

text \<open>
  A stored file document. The field \<open>size\<close> of the source is \<open>size_field\<close> here
  and \<open>_id\<close> is \<open>id_field\<close>.
\<close>

record file_doc =
  id_field :: string
  fileName :: string
  cid :: string
  size_field :: string
  mimeType :: string
  walletAddress :: string
  createdAt :: int
  updatedAt :: "int option"

text \<open>An element of \<open>transformedFiles\<close>: the document, \<open>lastUpdate\<close> and \<open>formattedSize\<close>.\<close>

record listed_file =
  fileDoc :: file_doc
  lastUpdate :: int
  formattedSize :: string

record cache_entry =
  data :: "listed_file list"
  timestamp :: int

text \<open>
  The JSON body of \<open>request.json()\<close>, destructured by the create handler. The five
  fields are strings or absent; a body that gives a field another JSON type is not
  covered.
\<close>

record upload_body =
  body_fileName :: "string option"
  body_cid :: "string option"
  body_size :: "string option"
  body_mimeType :: "string option"
  body_walletAddress :: "string option"

text \<open>An awaited call either returns a value or throws an error with a message.\<close>

datatype 'a outcome = Returns 'a | Throws string

text \<open>The calls a handler issues to the database, in order: a record kept for the proofs.\<close>

datatype db_call = Connect | Create | Upsert | Find | FindOne | DeleteOne | Update

datatype upsert_result = UpsertDoc | UpsertNull | UpsertThrows string

text \<open>
  What the outside world answers during one request: whether \<open>connectToDatabase()\<close>
  resolves, whether a database call throws, the identifier and time the database gives a
  new document, and the two readings of \<open>Date.now()\<close> of the list handler.
\<close>

record env =
  connectOk :: bool
  createErr :: "string option"
  newId :: string
  createTime :: int
  upsertRes :: upsert_result
  findErr :: "string option"
  findOneErr :: "string option"
  deleteOneErr :: "string option"
  updateErr :: "string option"
  now1 :: int
  now2 :: int

text \<open>
  The state the handlers share: the two collections, the module variables
  \<open>fileListCache\<close> and \<open>dbConnectionPromise\<close> (\<open>True\<close> when a resolved promise is
  memoised), and the calls issued so far.
\<close>

record world =
  files :: "file_doc list"
  users :: "string \<rightharpoonup> int"
  fileListCache :: "string \<rightharpoonup> cache_entry"
  dbConnectionPromise :: bool
  dbLog :: "db_call list"

text \<open>
  The JSON bodies the handlers answer with: \<open>Error e\<close> is \<open>{ error: e }\<close> (the
  \<open>details\<close> and \<open>timestamp\<close> that the catch of the create handler adds are left
  out), \<open>ErrorWith e x\<close> carries a second field (\<open>details\<close> or \<open>message\<close>),
  \<open>Created f\<close> is \<open>{ success: true, file: f }\<close>, \<open>Files l\<close> is
  \<open>{ success: true, files: l }\<close>, \<open>Success\<close> is \<open>{ success: true }\<close> and
  \<open>Relayed j\<close> is the JSON of the external API passed on.
\<close>

datatype json_body =
    Error string
  | ErrorWith string string
  | Created file_doc
  | Files "listed_file list"
  | Success
  | Relayed string

record response =
  status :: nat
  body :: json_body

definition CACHE_TTL :: int where
  "CACHE_TTL = 30 * 1000"

definition cacheKey :: "string \<Rightarrow> string" where
  "cacheKey wallet = ''files:'' @ wallet"

text \<open>The counter of a wallet, a wallet without account counting as 0.\<close>

definition totalStorageUsed :: "world \<Rightarrow> string \<Rightarrow> int" where
  "totalStorageUsed w wallet = (case users w wallet of None \<Rightarrow> 0 | Some t \<Rightarrow> t)"

subsection \<open>The database calls\<close>

text \<open>
  Requests are taken one after the other, so a memoised promise has resolved; a failed
  attempt clears the variable and answers \<open>false\<close>.
\<close>

definition ensureDbConnection :: "env \<Rightarrow> world \<Rightarrow> bool \<times> world" where
  "ensureDbConnection e w =
     (if dbConnectionPromise w then (True, w)
      else if connectOk e
        then (True, w\<lparr>dbConnectionPromise := True, dbLog := dbLog w @ [Connect]\<rparr>)
        else (False, w\<lparr>dbConnectionPromise := False, dbLog := dbLog w @ [Connect]\<rparr>))"

text \<open>
  Modelled from the spec: \<open>FileModel.create\<close> of \<open>models/File\<close>, which is not among
  the sources. It persists a FileRecord with the five fields; the database adds the
  identifier and the creation time. A call that throws stores nothing.
\<close>

definition FileModel_create ::
  "env \<Rightarrow> string \<Rightarrow> string \<Rightarrow> string \<Rightarrow> string \<Rightarrow> string \<Rightarrow> world \<Rightarrow> file_doc outcome \<times> world" where
  "FileModel_create e fn c sz mt wa w =
     (let w1 = w\<lparr>dbLog := dbLog w @ [Create]\<rparr> in
      case createErr e of
        Some msg \<Rightarrow> (Throws msg, w1)
      | None \<Rightarrow>
          (let doc = \<lparr>id_field = newId e, fileName = fn, cid = c, size_field = sz,
                       mimeType = mt, walletAddress = wa, createdAt = createTime e,
                       updatedAt = Some (createTime e)\<rparr>
           in (Returns doc, w1\<lparr>files := files w1 @ [doc]\<rparr>)))"

text \<open>
  Modelled from the spec: \<open>User.findOneAndUpdate\<close> of \<open>models/User\<close> with
  \<open>$inc\<close>, \<open>$setOnInsert\<close>, \<open>upsert\<close> and \<open>new\<close>. It upserts the
  UserStorageAccount of the wallet, incrementing \<open>totalStorageUsed\<close>, and returns the
  account (here its counter). A call that throws or yields no record changes nothing.
\<close>

definition User_upsert_inc :: "env \<Rightarrow> string \<Rightarrow> int \<Rightarrow> world \<Rightarrow> int option outcome \<times> world" where
  "User_upsert_inc e wa n w =
     (let w1 = w\<lparr>dbLog := dbLog w @ [Upsert]\<rparr> in
      case upsertRes e of
        UpsertThrows msg \<Rightarrow> (Throws msg, w1)
      | UpsertNull \<Rightarrow> (Returns None, w1)
      | UpsertDoc \<Rightarrow>
          (let t = totalStorageUsed w1 wa + n
           in (Returns (Some t), w1\<lparr>users := (users w1)(wa \<mapsto> t)\<rparr>)))"

text \<open>
  Modelled from the spec: \<open>FileModel.find({ walletAddress }).sort({ createdAt: -1 })\<close>,
  all FileRecords of the wallet ordered by creation time descending.
\<close>

definition queryFiles :: "file_doc list \<Rightarrow> string \<Rightarrow> file_doc list" where
  "queryFiles fs wa = sort_key (\<lambda>f. - createdAt f) (filter (\<lambda>f. walletAddress f = wa) fs)"

definition FileModel_find :: "env \<Rightarrow> string \<Rightarrow> world \<Rightarrow> file_doc list outcome \<times> world" where
  "FileModel_find e wa w =
     (let w1 = w\<lparr>dbLog := dbLog w @ [Find]\<rparr> in
      case findErr e of
        Some msg \<Rightarrow> (Throws msg, w1)
      | None \<Rightarrow> (Returns (queryFiles (files w1) wa), w1))"

text \<open>The filter \<open>{ cid, walletAddress }\<close> of the delete handler.\<close>

definition matches :: "string \<Rightarrow> string \<Rightarrow> file_doc \<Rightarrow> bool" where
  "matches c wa f = (cid f = c \<and> walletAddress f = wa)"

text \<open>Modelled from the spec: \<open>FileModel.findOne({ cid, walletAddress })\<close>, the first match.\<close>

definition FileModel_findOne ::
  "env \<Rightarrow> string \<Rightarrow> string \<Rightarrow> world \<Rightarrow> file_doc option outcome \<times> world" where
  "FileModel_findOne e c wa w =
     (let w1 = w\<lparr>dbLog := dbLog w @ [FindOne]\<rparr> in
      case findOneErr e of
        Some msg \<Rightarrow> (Throws msg, w1)
      | None \<Rightarrow> (Returns (find (matches c wa) (files w1)), w1))"

fun removeFirst :: "('a \<Rightarrow> bool) \<Rightarrow> 'a list \<Rightarrow> 'a list" where
  "removeFirst P [] = []"
| "removeFirst P (x # xs) = (if P x then xs else x # removeFirst P xs)"

text \<open>
  Modelled from the spec: \<open>FileModel.deleteOne({ cid, walletAddress })\<close>, which deletes
  one matching record, the first.
\<close>

definition FileModel_deleteOne :: "env \<Rightarrow> string \<Rightarrow> string \<Rightarrow> world \<Rightarrow> unit outcome \<times> world" where
  "FileModel_deleteOne e c wa w =
     (let w1 = w\<lparr>dbLog := dbLog w @ [DeleteOne]\<rparr> in
      case deleteOneErr e of
        Some msg \<Rightarrow> (Throws msg, w1)
      | None \<Rightarrow>
          (Returns (), w1\<lparr>files := removeFirst (matches c wa) (files w1)\<rparr>))"

text \<open>
  Modelled from the spec: \<open>User.findOneAndUpdate\<close> with \<open>$inc\<close> alone (no upsert):
  the counter of an existing account changes, a missing account stays missing.
\<close>

definition User_inc :: "env \<Rightarrow> string \<Rightarrow> int \<Rightarrow> world \<Rightarrow> unit outcome \<times> world" where
  "User_inc e wa n w =
     (let w1 = w\<lparr>dbLog := dbLog w @ [Update]\<rparr> in
      case updateErr e of
        Some msg \<Rightarrow> (Throws msg, w1)
      | None \<Rightarrow>
          (Returns (),
           (case users w1 wa of
              None \<Rightarrow> w1
            | Some t \<Rightarrow> w1\<lparr>users := (users w1)(wa \<mapsto> t + n)\<rparr>)))"

text \<open>
  \<open>NextResponse.json(b, { status })\<close> builds a Response with a body. The constructor
  accepts a status from 200 to 599 that is not a null-body status (204, 205, 304) and
  throws for every other one.
\<close>

definition validStatus :: "nat \<Rightarrow> bool" where
  "validStatus st = (200 \<le> st \<and> st \<le> 599 \<and> st \<notin> {204, 205, 304})"

text \<open>
  \<open>json b st\<close> is the response that \<open>NextResponse.json\<close> returns at a status it
  accepts, 200 when none is given. The handlers call it with the literal statuses 200,
  400, 404, 500 and 503, which are accepted.
\<close>

definition json :: "json_body \<Rightarrow> nat \<Rightarrow> response" where
  "json b st = \<lparr>status = st, body = b\<rparr>"

text \<open>
  The call with a status computed at run time: it throws, with the message \<open>err\<close> of
  the constructor, when the status is not accepted.
\<close>

definition NextResponse_json :: "json_body \<Rightarrow> nat \<Rightarrow> string \<Rightarrow> response outcome" where
  "NextResponse_json b st err = (if validStatus st then Returns (json b st) else Throws err)"

subsection \<open>Create: \<open>POST\<close>\<close>

definition POST :: "upload_body outcome \<Rightarrow> env \<Rightarrow> world \<Rightarrow> response \<times> world" where
  "POST request_json e w =
     (case request_json of
        Throws msg \<Rightarrow> (json (Error msg) 500, w)
      | Returns d \<Rightarrow>
          if \<not> truthy (body_walletAddress d)
            then (json (Error ''Wallet address is required'') 400, w)
          else if \<not> truthy (body_fileName d) \<or> \<not> truthy (body_cid d) \<or>
                  \<not> truthy (body_size d) \<or> \<not> truthy (body_mimeType d)
            then (json (Error ''Missing required fields'') 400, w)
          else
            (case ensureDbConnection e w of
               (False, w1) \<Rightarrow> (json (Error ''Failed to connect to database'') 503, w1)
             | (True, w1) \<Rightarrow>
                 (case FileModel_create e (str (body_fileName d)) (str (body_cid d))
                         (str (body_size d)) (str (body_mimeType d))
                         (str (body_walletAddress d)) w1 of
                    (Throws msg, w2) \<Rightarrow> (json (Error msg) 500, w2)
                  | (Returns doc, w2) \<Rightarrow>
                      (case parseInt (str (body_size d)) of
                         None \<Rightarrow> (json (Error ''Invalid file size'') 400, w2)
                       | Some sizeInBytes \<Rightarrow>
                           (case User_upsert_inc e (str (body_walletAddress d)) sizeInBytes w2 of
                              (Throws msg, w3) \<Rightarrow> (json (Error msg) 500, w3)
                            | (Returns None, w3) \<Rightarrow>
                                (json (Error ''Failed to update user storage'') 500, w3)
                            | (Returns (Some userUpdate), w3) \<Rightarrow>
                                (json (Created doc) 200,
                                 w3\<lparr>fileListCache :=
                                      (fileListCache w3)
                                        (cacheKey (str (body_walletAddress d)) := None)\<rparr>))))))"

subsection \<open>List: \<open>GET\<close>\<close>

definition formatSize :: "string \<Rightarrow> string" where
  "formatSize sz =
     (case parseInt sz of
        None \<Rightarrow> sz
      | Some sizeInBytes \<Rightarrow>
          if sizeInBytes < 1024 then numberToString sizeInBytes @ '' B''
          else if sizeInBytes < 1024 * 1024
            then toFixed2 sizeInBytes 1024 @ '' KB''
          else if sizeInBytes < 1024 * 1024 * 1024
            then toFixed2 sizeInBytes (1024 * 1024) @ '' MB''
          else toFixed2 sizeInBytes (1024 * 1024 * 1024) @ '' GB'')"

definition transform :: "file_doc \<Rightarrow> listed_file" where
  "transform f =
     \<lparr>fileDoc = f,
      lastUpdate = (case updatedAt f of Some u \<Rightarrow> u | None \<Rightarrow> createdAt f),
      formattedSize = formatSize (size_field f)\<rparr>"

text \<open>
  Lines 138 to 140: the entry of the wallet, when there is one and
  \<open>Date.now() - cachedData.timestamp < CACHE_TTL\<close>.
\<close>

definition cacheLookup :: "world \<Rightarrow> string \<Rightarrow> int \<Rightarrow> cache_entry option" where
  "cacheLookup w wallet now =
     (case fileListCache w (cacheKey wallet) of
        None \<Rightarrow> None
      | Some cachedData \<Rightarrow>
          if now - timestamp cachedData < CACHE_TTL then Some cachedData else None)"

definition GET :: "string option \<Rightarrow> env \<Rightarrow> world \<Rightarrow> response \<times> world" where
  "GET walletParam e w =
     (if \<not> truthy walletParam then (json (Error ''Wallet address is required'') 400, w)
      else
        (case cacheLookup w (str walletParam) (now1 e) of
           Some cachedData \<Rightarrow> (json (Files (data cachedData)) 200, w)
         | None \<Rightarrow>
             (case ensureDbConnection e w of
                (False, w1) \<Rightarrow> (json (Error ''Failed to connect to database'') 503, w1)
              | (True, w1) \<Rightarrow>
                  (case FileModel_find e (str walletParam) w1 of
                     (Throws msg, w2) \<Rightarrow> (json (ErrorWith ''Failed to fetch files'' msg) 500, w2)
                   | (Returns fs, w2) \<Rightarrow>
                       (let transformedFiles = map transform fs
                        in (json (Files transformedFiles) 200,
                            w2\<lparr>fileListCache :=
                                 (fileListCache w2)
                                   (cacheKey (str walletParam) \<mapsto>
                                      \<lparr>data = transformedFiles, timestamp = now2 e\<rparr>)\<rparr>))))))"

text \<open>
  The list handler cut at the \<open>await\<close> of its query (lines 152 to 155): \<open>GET_query\<close>
  runs up to the moment the database has answered, \<open>GET_store\<close> is the rest (lines 158
  to 188). Between the two, other requests can run to their end. \<open>GET\<close> is the one
  followed directly by the other.
\<close>

definition GET_query ::
  "string option \<Rightarrow> env \<Rightarrow> world \<Rightarrow> (response + file_doc list) \<times> world" where
  "GET_query walletParam e w =
     (if \<not> truthy walletParam then (Inl (json (Error ''Wallet address is required'') 400), w)
      else
        (case cacheLookup w (str walletParam) (now1 e) of
           Some cachedData \<Rightarrow> (Inl (json (Files (data cachedData)) 200), w)
         | None \<Rightarrow>
             (case ensureDbConnection e w of
                (False, w1) \<Rightarrow> (Inl (json (Error ''Failed to connect to database'') 503), w1)
              | (True, w1) \<Rightarrow>
                  (case FileModel_find e (str walletParam) w1 of
                     (Throws msg, w2) \<Rightarrow>
                       (Inl (json (ErrorWith ''Failed to fetch files'' msg) 500), w2)
                   | (Returns fs, w2) \<Rightarrow> (Inr fs, w2)))))"

definition GET_store ::
  "string option \<Rightarrow> env \<Rightarrow> file_doc list \<Rightarrow> world \<Rightarrow> response \<times> world" where
  "GET_store walletParam e fs w =
     (let transformedFiles = map transform fs
      in (json (Files transformedFiles) 200,
          w\<lparr>fileListCache :=
               (fileListCache w)
                 (cacheKey (str walletParam) \<mapsto>
                    \<lparr>data = transformedFiles, timestamp = now2 e\<rparr>)\<rparr>))"

subsection \<open>Delete: \<open>DELETE\<close>\<close>

definition DELETE :: "string option \<Rightarrow> string option \<Rightarrow> env \<Rightarrow> world \<Rightarrow> response \<times> world" where
  "DELETE cidParam walletParam e w =
     (if \<not> truthy cidParam \<or> \<not> truthy walletParam
        then (json (Error ''CID and wallet address are required'') 400, w)
      else
        (case ensureDbConnection e w of
           (False, w1) \<Rightarrow> (json (Error ''Failed to connect to database'') 503, w1)
         | (True, w1) \<Rightarrow>
             (case FileModel_findOne e (str cidParam) (str walletParam) w1 of
                (Throws msg, w2) \<Rightarrow> (json (Error ''Failed to delete file'') 500, w2)
              | (Returns None, w2) \<Rightarrow> (json (Error ''File not found or unauthorized'') 404, w2)
              | (Returns (Some f), w2) \<Rightarrow>
                  (case FileModel_deleteOne e (str cidParam) (str walletParam) w2 of
                     (Throws msg, w3) \<Rightarrow> (json (Error ''Failed to delete file'') 500, w3)
                   | (Returns u, w3) \<Rightarrow>
                       (let sizeInBytes =
                              (case parseInt (size_field f) of None \<Rightarrow> 0 | Some n \<Rightarrow> n)
                        in case User_inc e (str walletParam) (- sizeInBytes) w3 of
                             (Throws msg, w4) \<Rightarrow> (json (Error ''Failed to delete file'') 500, w4)
                           | (Returns u', w4) \<Rightarrow>
                               (json Success 200,
                                w4\<lparr>fileListCache :=
                                     (fileListCache w4)
                                       (cacheKey (str walletParam) := None)\<rparr>))))))"

section \<open>The upload proxy: the second source file\<close>

subsection \<open>Data\<close>

text \<open>
  A multipart form is its list of fields; a value is an uploaded file (name, type, size)
  or a text. \<open>formData.get\<close> gives the first value of a name, \<open>null\<close> when there is
  none. A file object is truthy, a text is truthy unless empty.
\<close>

datatype form_value = FileValue string string nat | TextValue string

type_synonym form_data = "(string \<times> form_value) list"

definition formData_get :: "form_data \<Rightarrow> string \<Rightarrow> form_value option" where
  "formData_get fd name = map_of fd name"

definition truthyValue :: "form_value option \<Rightarrow> bool" where
  "truthyValue v =
     (case v of None \<Rightarrow> False | Some (FileValue n t s) \<Rightarrow> True | Some (TextValue s) \<Rightarrow> s \<noteq> [])"

text \<open>
  The response of \<open>fetch\<close>: \<open>status\<close> is \<open>upstreamStatus\<close> here, \<open>text()\<close> and
  \<open>json()\<close> are the results of reading the body.
\<close>

record fetch_response =
  ok :: bool
  upstreamStatus :: nat
  statusText :: string
  text_result :: "string outcome"
  json_result :: "string outcome"

text \<open>What the handler asks of the outside, in order: reading the form, the network call.\<close>

datatype io_call = ReadFormData | Fetch string string form_data

text \<open>
  What the outside gives during one proxied upload: the two environment variables, the
  form, the result of \<open>fetch\<close>, and the message of the error that the Response
  constructor throws for a status it does not accept.
\<close>

record proxy_env =
  NEXT_PUBLIC_WEBHASH_API_URL :: "string option"
  NEXT_PUBLIC_WEBHASH_API_KEY :: "string option"
  request_formData :: "form_data outcome"
  fetch_result :: "fetch_response outcome"
  responseInitErr :: string

subsection \<open>The handler\<close>

definition proxy_POST :: "proxy_env \<Rightarrow> response \<times> io_call list" where
  "proxy_POST pe =
     (let webhashApiUrl =
            (if truthy (NEXT_PUBLIC_WEBHASH_API_URL pe) then str (NEXT_PUBLIC_WEBHASH_API_URL pe)
             else ''http://52.38.175.117:5000'');
          webhashApiKey = NEXT_PUBLIC_WEBHASH_API_KEY pe
      in if \<not> truthy webhashApiKey
           then (json (Error ''WebHash API key is not configured'') 500, [])
         else
           (case request_formData pe of
              Throws msg \<Rightarrow>
                (json (ErrorWith ''Failed to proxy request to WebHash API'' msg) 500,
                 [ReadFormData])
            | Returns formData \<Rightarrow>
                if \<not> truthyValue (formData_get formData ''file'')
                  then (json (Error ''No file found in request'') 400, [ReadFormData])
                else
                  (let call = Fetch (webhashApiUrl @ ''/upload'')
                                (''Bearer '' @ str webhashApiKey) formData
                   in case fetch_result pe of
                        Throws msg \<Rightarrow>
                          (json (Error (''WebHash API fetch error: '' @ msg)) 500,
                           [ReadFormData, call])
                      | Returns webhashResponse \<Rightarrow>
                          if \<not> ok webhashResponse
                            then
                              (let errorText =
                                     (case text_result webhashResponse of
                                        Returns t \<Rightarrow> t
                                      | Throws msg \<Rightarrow> ''Could not read error response'')
                               in case NextResponse_json
                                         (ErrorWith
                                            (''WebHash API error: '' @
                                             numberToString
                                               (int (upstreamStatus webhashResponse)) @
                                             '' '' @ statusText webhashResponse)
                                            errorText)
                                         (upstreamStatus webhashResponse)
                                         (responseInitErr pe) of
                                    Returns relayed \<Rightarrow> (relayed, [ReadFormData, call])
                                  | Throws msg \<Rightarrow>
                                      (json (ErrorWith
                                               ''Failed to proxy request to WebHash API'' msg)
                                         500,
                                       [ReadFormData, call]))
                          else
                            (case json_result webhashResponse of
                               Throws msg \<Rightarrow>
                                 (json (Error ''Failed to parse WebHash API response'') 500,
                                  [ReadFormData, call])
                             | Returns webhashData \<Rightarrow>
                                 (json (Relayed webhashData) 200, [ReadFormData, call])))))"

section \<open>Notions used in the statements\<close>

text \<open>All five fields of the body pass the presence checks of lines 50 and 55.\<close>

definition allPresent :: "upload_body \<Rightarrow> bool" where
  "allPresent d =
     (truthy (body_walletAddress d) \<and> truthy (body_fileName d) \<and> truthy (body_cid d) \<and>
      truthy (body_size d) \<and> truthy (body_mimeType d))"

text \<open>The document that a create of body \<open>d\<close> stores.\<close>

definition createdDoc :: "env \<Rightarrow> upload_body \<Rightarrow> file_doc" where
  "createdDoc e d =
     \<lparr>id_field = newId e, fileName = str (body_fileName d), cid = str (body_cid d),
      size_field = str (body_size d), mimeType = str (body_mimeType d),
      walletAddress = str (body_walletAddress d), createdAt = createTime e,
      updatedAt = Some (createTime e)\<rparr>"

text \<open>\<open>ensureDbConnection\<close> will answer \<open>true\<close>.\<close>

definition connected :: "env \<Rightarrow> world \<Rightarrow> bool" where
  "connected e w = (dbConnectionPromise w \<or> connectOk e)"

text \<open>The size that the delete handler takes off the counter: \<open>parseInt(file.size, 10) || 0\<close>.\<close>

definition parsedSizeOrZero :: "file_doc \<Rightarrow> int" where
  "parsedSizeOrZero f = (case parseInt (size_field f) of None \<Rightarrow> 0 | Some n \<Rightarrow> n)"

text \<open>The database calls of a delete that finds its record all succeed.\<close>

definition deleteCallsOk :: "env \<Rightarrow> bool" where
  "deleteCallsOk e = (findOneErr e = None \<and> deleteOneErr e = None \<and> updateErr e = None)"

subsection \<open>Sample inputs\<close>

definition emptyWorld :: world where
  "emptyWorld =
     \<lparr>files = [], users = Map.empty, fileListCache = Map.empty,
      dbConnectionPromise = False, dbLog = []\<rparr>"

definition okEnv :: env where
  "okEnv =
     \<lparr>connectOk = True, createErr = None, newId = ''65f0'', createTime = 1000,
      upsertRes = UpsertDoc, findErr = None, findOneErr = None, deleteOneErr = None,
      updateErr = None, now1 = 5000, now2 = 5002\<rparr>"

definition sampleBody :: "string \<Rightarrow> upload_body" where
  "sampleBody sz =
     \<lparr>body_fileName = Some ''a.txt'', body_cid = Some ''Qm1'', body_size = Some sz,
      body_mimeType = Some ''text/plain'', body_walletAddress = Some ''0xA''\<rparr>"

definition sampleFile :: "string \<Rightarrow> file_doc" where
  "sampleFile sz =
     \<lparr>id_field = ''65f0'', fileName = ''a.txt'', cid = ''Qm1'', size_field = sz,
      mimeType = ''text/plain'', walletAddress = ''0xA'', createdAt = 1000,
      updatedAt = None\<rparr>"

definition laterEnv :: env where
  "laterEnv = okEnv\<lparr>newId := ''65f1'', createTime := 1500, now1 := 9000, now2 := 9001\<rparr>"

text \<open>A create whose upsert throws: the record is stored, the wallet has no account.\<close>

definition orphanRecord :: world where
  "orphanRecord =
     snd (POST (Returns (sampleBody ''2048''))
       (okEnv\<lparr>upsertRes := UpsertThrows ''connection closed''\<rparr>) emptyWorld)"

definition errorUpstream :: fetch_response where
  "errorUpstream =
     \<lparr>ok = False, upstreamStatus = 404, statusText = ''Not Found'',
      text_result = Returns ''no such route'', json_result = Throws ''Unexpected token''\<rparr>"

definition notModifiedUpstream :: fetch_response where
  "notModifiedUpstream =
     \<lparr>ok = False, upstreamStatus = 304, statusText = ''Not Modified'',
      text_result = Returns [], json_result = Throws ''Unexpected end of JSON input''\<rparr>"

definition cachedWorld :: world where
  "cachedWorld = snd (GET (Some ''0xA'') okEnv emptyWorld)"

definition oneFile :: world where
  "oneFile = snd (POST (Returns (sampleBody ''2048'')) okEnv emptyWorld)"

text \<open>One stored file and a list-cache entry that shows it.\<close>

definition listedWorld :: world where
  "listedWorld = snd (GET (Some ''0xA'') okEnv oneFile)"

text \<open>
  A list whose query is answered before a create runs and which stores its result after
  the create has returned.
\<close>

definition staleWorld :: world where
  "staleWorld =
     snd (GET_store (Some ''0xA'') okEnv []
       (snd (POST (Returns (sampleBody ''2048'')) okEnv
         (snd (GET_query (Some ''0xA'') okEnv emptyWorld)))))"

definition okUpstream :: fetch_response where
  "okUpstream =
     \<lparr>ok = True, upstreamStatus = 200, statusText = ''OK'',
      text_result = Returns ''{}'', json_result = Returns ''{}''\<rparr>"

definition sampleProxyEnv :: "string option \<Rightarrow> form_data \<Rightarrow> fetch_response \<Rightarrow> proxy_env" where
  "sampleProxyEnv key fd r =
     \<lparr>NEXT_PUBLIC_WEBHASH_API_URL = None, NEXT_PUBLIC_WEBHASH_API_KEY = key,
      request_formData = Returns fd, fetch_result = Returns r,
      responseInitErr = ''Invalid response status code''\<rparr>"

section \<open>Evaluation and helper lemmas\<close>

lemmas parseInt_eval = parseInt_def isWhiteSpace_def isDigit_def digitVal_def

lemmas format_eval = formatSize_def toFixed2_def fixed2_def hundredths_def numberToString_def
  digits.simps digitChar_def

lemmas db_defs = ensureDbConnection_def FileModel_create_def User_upsert_inc_def
  FileModel_find_def FileModel_findOne_def FileModel_deleteOne_def User_inc_def

lemmas sample_defs = emptyWorld_def okEnv_def laterEnv_def sampleBody_def sampleFile_def
  allPresent_def connected_def truthy_def str_def

lemma status_json [simp]: "status (json b st) = st"
  by (simp add: json_def)

lemma body_json [simp]: "body (json b st) = b"
  by (simp add: json_def)

text \<open>
  \<open>hundredths n d\<close> is a nearest hundredth of \<open>n / d\<close>: the error is at most half a
  hundredth.
\<close>

lemma hundredths_nearest:
  assumes "0 < d"
  shows "2 * \<bar>100 * n - hundredths n d * d\<bar> \<le> d"
proof -
  define m where "m = (200 * n + d) div (2 * d)"
  define r where "r = (200 * n + d) mod (2 * d)"
  have eq: "200 * n + d = 2 * d * m + r"
    unfolding m_def r_def by simp
  have r0: "0 \<le> r" and r1: "r < 2 * d"
    using assms unfolding r_def by simp_all
  have "2 * (100 * n - m * d) = r - d"
    using eq by (simp add: algebra_simps)
  then have "2 * \<bar>100 * n - m * d\<bar> = \<bar>r - d\<bar>"
    by (metis abs_mult abs_numeral)
  also have "\<dots> \<le> d"
    using r0 r1 by linarith
  finally show ?thesis
    by (simp add: hundredths_def m_def)
qed

lemma formatSize_cases:
  assumes "parseInt sz = Some n"
  shows "formatSize sz =
    (if n < 1024 then numberToString n @ '' B''
     else if n < 1024 * 1024 then toFixed2 n 1024 @ '' KB''
     else if n < 1024 * 1024 * 1024 then toFixed2 n (1024 * 1024) @ '' MB''
     else toFixed2 n (1024 * 1024 * 1024) @ '' GB'')"
  using assms by (simp add: formatSize_def)

lemma POST_ok:
  assumes "allPresent d" "connected e w" "createErr e = None"
    "parseInt (str (body_size d)) = Some n" "upsertRes e = UpsertDoc"
  shows "fst (POST (Returns d) e w) = json (Created (createdDoc e d)) 200"
    and "files (snd (POST (Returns d) e w)) = files w @ [createdDoc e d]"
    and "users (snd (POST (Returns d) e w)) =
           (users w)(str (body_walletAddress d) \<mapsto>
              totalStorageUsed w (str (body_walletAddress d)) + n)"
    and "fileListCache (snd (POST (Returns d) e w)) =
           (fileListCache w)(cacheKey (str (body_walletAddress d)) := None)"
  using assms
  by (auto simp add: POST_def db_defs allPresent_def connected_def createdDoc_def
      totalStorageUsed_def Let_def)

lemma POST_null:
  assumes "allPresent d" "connected e w" "createErr e = None"
    "parseInt (str (body_size d)) = Some n" "upsertRes e = UpsertNull"
  shows "fst (POST (Returns d) e w) = json (Error ''Failed to update user storage'') 500"
  using assms
  by (auto simp add: POST_def db_defs allPresent_def connected_def Let_def)

lemma POST_invalid_size:
  assumes "allPresent d" "connected e w" "createErr e = None"
    "parseInt (str (body_size d)) = None"
  shows "fst (POST (Returns d) e w) = json (Error ''Invalid file size'') 400"
    and "files (snd (POST (Returns d) e w)) = files w @ [createdDoc e d]"
    and "users (snd (POST (Returns d) e w)) = users w"
    and "fileListCache (snd (POST (Returns d) e w)) = fileListCache w"
  using assms
  by (auto simp add: POST_def db_defs allPresent_def connected_def createdDoc_def Let_def)

lemma find_removeFirst:
  "find P (removeFirst P xs) = None \<longleftrightarrow> length (filter P xs) \<le> 1"
  by (induction xs) (auto simp: find_None_iff filter_empty_conv)

lemma DELETE_ok:
  assumes "truthy cp" "truthy wp" "connected e w" "findOneErr e = None"
    "deleteOneErr e = None" "updateErr e = None"
    "find (matches (str cp) (str wp)) (files w) = Some f"
  shows "fst (DELETE cp wp e w) = json Success 200"
    and "files (snd (DELETE cp wp e w)) = removeFirst (matches (str cp) (str wp)) (files w)"
    and "users (snd (DELETE cp wp e w)) =
           (case users w (str wp) of
              None \<Rightarrow> users w
            | Some t \<Rightarrow> (users w)(str wp \<mapsto> t - parsedSizeOrZero f))"
    and "fileListCache (snd (DELETE cp wp e w)) = (fileListCache w)(cacheKey (str wp) := None)"
    and "dbConnectionPromise (snd (DELETE cp wp e w))"
  using assms
  by (auto simp add: DELETE_def db_defs connected_def parsedSizeOrZero_def Let_def
      split: option.splits)

lemma DELETE_404_iff:
  assumes "truthy cp" "truthy wp" "connected e w" "findOneErr e = None"
  shows "status (fst (DELETE cp wp e w)) = 404 \<longleftrightarrow>
         find (matches (str cp) (str wp)) (files w) = None"
  using assms
  by (auto simp add: DELETE_def db_defs connected_def Let_def
      split: option.splits outcome.splits)

lemma DELETE_200:
  assumes "status (fst (DELETE cp wp e w)) = 200"
  shows "fileListCache (snd (DELETE cp wp e w)) (cacheKey (str wp)) = None \<and>
         dbConnectionPromise (snd (DELETE cp wp e w))"
  using assms
  by (auto simp add: DELETE_def db_defs Let_def
      split: option.splits outcome.splits if_splits)

lemma POST_200_cache:
  assumes "status (fst (POST (Returns d) e w)) = 200"
  shows "fileListCache (snd (POST (Returns d) e w)) (cacheKey (str (body_walletAddress d))) = None \<and>
         dbConnectionPromise (snd (POST (Returns d) e w)) \<and> truthy (body_walletAddress d)"
  using assms
  by (auto simp add: POST_def db_defs Let_def
      split: option.splits outcome.splits if_splits upsert_result.splits)

lemma GET_hit:
  assumes "truthy wp" "cacheLookup w (str wp) (now1 e) = Some c"
  shows "GET wp e w = (json (Files (data c)) 200, w)"
  using assms by (simp add: GET_def)

lemma GET_miss_ok:
  assumes "truthy wp" "cacheLookup w (str wp) (now1 e) = None" "connected e w" "findErr e = None"
  shows "fst (GET wp e w) = json (Files (map transform (queryFiles (files w) (str wp)))) 200"
    and "fileListCache (snd (GET wp e w)) =
           (fileListCache w)(cacheKey (str wp) \<mapsto>
              \<lparr>data = map transform (queryFiles (files w) (str wp)), timestamp = now2 e\<rparr>)"
    and "dbLog (snd (GET wp e w)) =
           dbLog w @ (if dbConnectionPromise w then [] else [Connect]) @ [Find]"
    and "files (snd (GET wp e w)) = files w" and "users (snd (GET wp e w)) = users w"
  using assms
  by (auto simp add: GET_def db_defs connected_def Let_def)

lemma GET_miss_200:
  assumes "truthy wp" "cacheLookup w (str wp) (now1 e) = None" "status (fst (GET wp e w)) = 200"
  shows "connected e w \<and> findErr e = None"
  using assms
  by (auto simp add: GET_def db_defs connected_def Let_def split: option.splits outcome.splits if_splits)

lemma cacheLookup_None:
  "fileListCache w (cacheKey a) = None \<Longrightarrow> cacheLookup w a now = None"
  by (simp add: cacheLookup_def)

lemma filter_removeFirst:
  assumes "\<exists>x \<in> set xs. P x"
  shows "length (filter P (removeFirst P xs)) + 1 = length (filter P xs)"
  using assms by (induction xs) auto

lemma DELETE_200_truthy:
  assumes "status (fst (DELETE cp wp e w)) = 200"
  shows "truthy wp"
  using assms by (auto simp add: DELETE_def split: if_splits)

lemma GET_after_invalidation:
  assumes "truthy wp" and "fileListCache w (cacheKey (str wp)) = None"
    and "dbConnectionPromise w" and "status (fst (GET wp e w)) = 200"
  shows "fst (GET wp e w) = json (Files (map transform (queryFiles (files w) (str wp)))) 200 \<and>
         dbLog (snd (GET wp e w)) = dbLog w @ [Find]"
proof -
  have l: "cacheLookup w (str wp) (now1 e) = None"
    by (rule cacheLookup_None [OF assms(2)])
  have c: "connected e w" "findErr e = None"
    using GET_miss_200 [OF assms(1) l assms(4)] by simp_all
  show ?thesis
    using GET_miss_ok(1) [OF assms(1) l c] GET_miss_ok(3) [OF assms(1) l c] assms(3)
    by simp
qed

lemma queryFiles_single:
  "walletAddress f = wa \<Longrightarrow> queryFiles [f] wa = [f]"
  by (simp add: queryFiles_def)

lemma POST_upsert_throws:
  assumes "allPresent d" "connected e w" "createErr e = None"
    "parseInt (str (body_size d)) = Some n" "upsertRes e = UpsertThrows m"
  shows "fst (POST (Returns d) e w) = json (Error m) 500"
    and "files (snd (POST (Returns d) e w)) = files w @ [createdDoc e d]"
    and "users (snd (POST (Returns d) e w)) = users w"
    and "dbConnectionPromise (snd (POST (Returns d) e w))"
  using assms
  by (auto simp add: POST_def db_defs allPresent_def connected_def createdDoc_def Let_def)

lemma POST_200_cache_eq:
  assumes "status (fst (POST (Returns d) e w)) = 200"
  shows "fileListCache (snd (POST (Returns d) e w)) =
         (fileListCache w)(cacheKey (str (body_walletAddress d)) := None)"
  using assms
  by (auto simp add: POST_def db_defs Let_def
      split: option.splits outcome.splits if_splits upsert_result.splits)

lemma DELETE_200_cache_eq:
  assumes "status (fst (DELETE cp wp e w)) = 200"
  shows "fileListCache (snd (DELETE cp wp e w)) = (fileListCache w)(cacheKey (str wp) := None)"
  using assms
  by (auto simp add: DELETE_def db_defs Let_def
      split: option.splits outcome.splits if_splits)

text \<open>The cut of the list handler is the handler: the query, then the store.\<close>

lemma GET_split:
  "GET wp e w =
     (case GET_query wp e w of
        (Inl r, w1) \<Rightarrow> (r, w1)
      | (Inr fs, w1) \<Rightarrow> GET_store wp e fs w1)"
  by (simp add: GET_def GET_query_def GET_store_def Let_def
      split: option.splits prod.splits bool.splits outcome.splits)

section \<open>The claims\<close>

text \<open>
  C1. For every metadata create whose body passes the presence checks, whose size parses
  as an integer \<open>n\<close> and whose database calls succeed (the connection is there and the
  create stores the record): when the upsert returns the account, the handler answers 200
  and the \<open>totalStorageUsed\<close> of the owning wallet has grown by exactly \<open>n\<close>, the
  account being created with counter \<open>n\<close> when the wallet had none; when the upsert
  yields no record, the handler answers 500. The growth is stated for \<open>n\<close> and a new
  counter in the range where a Number holds them exactly.
\<close>

theorem create_increments_storage:
  assumes "allPresent d" and "connected e w" and "createErr e = None"
    and "parseInt (str (body_size d)) = Some n"
  shows "(upsertRes e = UpsertDoc \<and> safeInteger n \<and>
          safeInteger (totalStorageUsed w (str (body_walletAddress d)) + n) \<longrightarrow>
            status (fst (POST (Returns d) e w)) = 200 \<and>
            users (snd (POST (Returns d) e w)) (str (body_walletAddress d)) =
              Some (totalStorageUsed w (str (body_walletAddress d)) + n) \<and>
            totalStorageUsed (snd (POST (Returns d) e w)) (str (body_walletAddress d)) =
              totalStorageUsed w (str (body_walletAddress d)) + n \<and>
            (users w (str (body_walletAddress d)) = None \<longrightarrow>
               users (snd (POST (Returns d) e w)) (str (body_walletAddress d)) = Some n)) \<and>
         (upsertRes e = UpsertNull \<longrightarrow>
            fst (POST (Returns d) e w) = json (Error ''Failed to update user storage'') 500 \<and>
            status (fst (POST (Returns d) e w)) = 500)"
proof (intro conjI impI)
  assume "upsertRes e = UpsertDoc \<and> safeInteger n \<and>
    safeInteger (totalStorageUsed w (str (body_walletAddress d)) + n)"
  then have up: "upsertRes e = UpsertDoc"
    by simp
  note ok = POST_ok [OF assms up]
  show "status (fst (POST (Returns d) e w)) = 200"
    by (simp add: ok(1))
  show u: "users (snd (POST (Returns d) e w)) (str (body_walletAddress d)) =
      Some (totalStorageUsed w (str (body_walletAddress d)) + n)"
    by (simp add: ok(3))
  show "totalStorageUsed (snd (POST (Returns d) e w)) (str (body_walletAddress d)) =
      totalStorageUsed w (str (body_walletAddress d)) + n"
    by (simp add: totalStorageUsed_def [of "snd (POST (Returns d) e w)"] u)
  show "users (snd (POST (Returns d) e w)) (str (body_walletAddress d)) = Some n"
    if "users w (str (body_walletAddress d)) = None"
    using that u by (simp add: totalStorageUsed_def)
next
  assume up: "upsertRes e = UpsertNull"
  show "fst (POST (Returns d) e w) = json (Error ''Failed to update user storage'') 500"
    by (rule POST_null [OF assms up])
  then show "status (fst (POST (Returns d) e w)) = 500"
    by simp
qed

theorem create_increments_storage_witness:
  "allPresent (sampleBody ''2048'') \<and> connected okEnv emptyWorld \<and> createErr okEnv = None \<and>
   parseInt (str (body_size (sampleBody ''2048''))) = Some 2048 \<and>
   upsertRes okEnv = UpsertDoc \<and> safeInteger 2048 \<and>
   safeInteger (totalStorageUsed emptyWorld ''0xA'' + 2048) \<and>
   users emptyWorld ''0xA'' = None \<and>
   status (fst (POST (Returns (sampleBody ''2048'')) okEnv emptyWorld)) = 200 \<and>
   users (snd (POST (Returns (sampleBody ''2048'')) okEnv emptyWorld)) ''0xA'' = Some 2048 \<and>
   upsertRes (okEnv\<lparr>upsertRes := UpsertNull\<rparr>) = UpsertNull \<and>
   status (fst (POST (Returns (sampleBody ''2048'')) (okEnv\<lparr>upsertRes := UpsertNull\<rparr>)
     emptyWorld)) = 500"
proof -
  have p: "parseInt (str (body_size (sampleBody ''2048''))) = Some 2048"
    by (simp add: sample_defs parseInt_eval)
  have a: "allPresent (sampleBody ''2048'')"
    by (simp add: sample_defs)
  have c: "connected okEnv emptyWorld" "connected (okEnv\<lparr>upsertRes := UpsertNull\<rparr>) emptyWorld"
    by (simp_all add: sample_defs)
  have e: "createErr okEnv = None" "createErr (okEnv\<lparr>upsertRes := UpsertNull\<rparr>) = None"
    by (simp_all add: sample_defs)
  have u: "upsertRes okEnv = UpsertDoc" "users emptyWorld ''0xA'' = None"
    "str (body_walletAddress (sampleBody ''2048'')) = ''0xA''"
    "totalStorageUsed emptyWorld ''0xA'' = 0" "safeInteger 2048"
    by (simp_all add: sample_defs totalStorageUsed_def safeInteger_def)
  show ?thesis
    using create_increments_storage [OF a c(1) e(1) p]
      create_increments_storage [OF a c(2) e(2) p] a c e p u
    by simp
qed

text \<open>
  C2. For every metadata create whose five fields are present and whose size does not
  parse as an integer, once the connection is there and the create has stored the record:
  the handler answers 400 with \<open>Invalid file size\<close>, and the FileRecord is in the
  collection all the same; the storage accounts and the list cache are as before.
\<close>

theorem invalid_size_after_persist:
  assumes "allPresent d" and "connected e w" and "createErr e = None"
    and "parseInt (str (body_size d)) = None"
  shows "fst (POST (Returns d) e w) = json (Error ''Invalid file size'') 400 \<and>
         status (fst (POST (Returns d) e w)) = 400 \<and>
         files (snd (POST (Returns d) e w)) = files w @ [createdDoc e d] \<and>
         files (snd (POST (Returns d) e w)) \<noteq> files w \<and>
         users (snd (POST (Returns d) e w)) = users w \<and>
         fileListCache (snd (POST (Returns d) e w)) = fileListCache w"
  using POST_invalid_size [OF assms] by (simp add: json_def)

theorem invalid_size_after_persist_witness:
  "allPresent (sampleBody ''abc'') \<and> connected okEnv emptyWorld \<and> createErr okEnv = None \<and>
   parseInt (str (body_size (sampleBody ''abc''))) = None \<and>
   status (fst (POST (Returns (sampleBody ''abc'')) okEnv emptyWorld)) = 400 \<and>
   files (snd (POST (Returns (sampleBody ''abc'')) okEnv emptyWorld)) =
     [createdDoc okEnv (sampleBody ''abc'')]"
proof -
  have p: "parseInt (str (body_size (sampleBody ''abc''))) = None"
    by (simp add: sample_defs parseInt_eval)
  have a: "allPresent (sampleBody ''abc'')"
    by (simp add: sample_defs)
  have c: "connected okEnv emptyWorld"
    by (simp add: sample_defs)
  have e: "createErr okEnv = None"
    by (simp add: sample_defs)
  have f: "files emptyWorld = []"
    by (simp add: emptyWorld_def)
  show ?thesis
    using invalid_size_after_persist [OF a c e p] a c e p f by simp
qed

text \<open>
  C6. For every file record whose size parses as an integer \<open>n\<close> (in the range where a
  Number holds it exactly), \<open>formattedSize\<close> is \<open>n\<close> with \<open>B\<close> below 1024, and
  above it the quotient by 1024, 1024 squared or 1024 cubed, printed as the nearest
  hundredth with two decimals, with \<open>KB\<close>, \<open>MB\<close> or \<open>GB\<close>. So 500 gives
  \<open>500 B\<close>, 2048 gives \<open>2.00 KB\<close>, 5242880 gives \<open>5.00 MB\<close> and 3221225472
  gives \<open>3.00 GB\<close>.
\<close>

theorem formattedSize_thresholds:
  assumes "parseInt (size_field f) = Some n" and "\<bar>n\<bar> \<le> 2 ^ 53"
  shows "(n < 1024 \<longrightarrow> formattedSize (transform f) = numberToString n @ '' B'') \<and>
         (1024 \<le> n \<and> n < 1024 * 1024 \<longrightarrow>
            formattedSize (transform f) = fixed2 (hundredths n 1024) @ '' KB'' \<and>
            2 * \<bar>100 * n - hundredths n 1024 * 1024\<bar> \<le> 1024) \<and>
         (1024 * 1024 \<le> n \<and> n < 1024 * 1024 * 1024 \<longrightarrow>
            formattedSize (transform f) = fixed2 (hundredths n (1024 * 1024)) @ '' MB'' \<and>
            2 * \<bar>100 * n - hundredths n (1024 * 1024) * (1024 * 1024)\<bar> \<le> 1024 * 1024) \<and>
         (1024 * 1024 * 1024 \<le> n \<longrightarrow>
            formattedSize (transform f) =
              fixed2 (hundredths n (1024 * 1024 * 1024)) @ '' GB'' \<and>
            2 * \<bar>100 * n - hundredths n (1024 * 1024 * 1024) * (1024 * 1024 * 1024)\<bar>
              \<le> 1024 * 1024 * 1024) \<and>
         formattedSize (transform (f\<lparr>size_field := ''500''\<rparr>)) = ''500 B'' \<and>
         formattedSize (transform (f\<lparr>size_field := ''2048''\<rparr>)) = ''2.00 KB'' \<and>
         formattedSize (transform (f\<lparr>size_field := ''5242880''\<rparr>)) = ''5.00 MB'' \<and>
         formattedSize (transform (f\<lparr>size_field := ''3221225472''\<rparr>)) = ''3.00 GB''"
proof -
  have fs: "formattedSize (transform g) = formatSize (size_field g)" for g
    by (simp add: transform_def)
  note c = formatSize_cases [OF assms(1)]
  have b: "n < 1024 \<longrightarrow> formattedSize (transform f) = numberToString n @ '' B''"
    by (simp add: fs c)
  have k: "1024 \<le> n \<and> n < 1024 * 1024 \<longrightarrow>
      formattedSize (transform f) = fixed2 (hundredths n 1024) @ '' KB''"
    by (simp add: fs c toFixed2_def)
  have m: "1024 * 1024 \<le> n \<and> n < 1024 * 1024 * 1024 \<longrightarrow>
      formattedSize (transform f) = fixed2 (hundredths n (1024 * 1024)) @ '' MB''"
    by (simp add: fs c toFixed2_def)
  have g: "1024 * 1024 * 1024 \<le> n \<longrightarrow>
      formattedSize (transform f) = fixed2 (hundredths n (1024 * 1024 * 1024)) @ '' GB''"
    by (simp add: fs c toFixed2_def)
  have r1: "2 * \<bar>100 * n - hundredths n 1024 * 1024\<bar> \<le> 1024"
    by (rule hundredths_nearest) simp
  have r2: "2 * \<bar>100 * n - hundredths n (1024 * 1024) * (1024 * 1024)\<bar> \<le> 1024 * 1024"
    by (rule hundredths_nearest) simp
  have r3: "2 * \<bar>100 * n - hundredths n (1024 * 1024 * 1024) * (1024 * 1024 * 1024)\<bar>
      \<le> 1024 * 1024 * 1024"
    by (rule hundredths_nearest) simp
  have e1: "formatSize ''500'' = ''500 B''"
    by (simp add: parseInt_eval format_eval)
  have e2: "formatSize ''2048'' = ''2.00 KB''"
    by (simp add: parseInt_eval format_eval)
  have e3: "formatSize ''5242880'' = ''5.00 MB''"
    by (simp add: parseInt_eval format_eval)
  have e4: "formatSize ''3221225472'' = ''3.00 GB''"
    by (simp add: parseInt_eval format_eval)
  show ?thesis
    using b k m g r1 r2 r3 by (simp add: fs e1 e2 e3 e4)
qed

theorem formattedSize_thresholds_witness:
  "parseInt (size_field (sampleFile ''1536'')) = Some 1536 \<and> \<bar>1536 :: int\<bar> \<le> 2 ^ 53 \<and>
   (1024 :: int) \<le> 1536 \<and> (1536 :: int) < 1024 * 1024 \<and>
   formattedSize (transform (sampleFile ''1536'')) = ''1.50 KB'' \<and>
   parseInt (size_field (sampleFile ''-7'')) = Some (- 7) \<and> (- 7 :: int) < 1024 \<and>
   formattedSize (transform (sampleFile ''-7'')) = ''-7 B'' \<and>
   parseInt (size_field (sampleFile ''1048576'')) = Some 1048576 \<and>
   formattedSize (transform (sampleFile ''1048576'')) = ''1.00 MB'' \<and>
   parseInt (size_field (sampleFile ''1610612736'')) = Some 1610612736 \<and>
   formattedSize (transform (sampleFile ''1610612736'')) = ''1.50 GB''"
proof -
  have p1: "parseInt (size_field (sampleFile ''1536'')) = Some 1536"
    by (simp add: sampleFile_def parseInt_eval)
  have p2: "parseInt (size_field (sampleFile ''-7'')) = Some (- 7)"
    by (simp add: sampleFile_def parseInt_eval)
  have p3: "parseInt (size_field (sampleFile ''1048576'')) = Some 1048576"
    by (simp add: sampleFile_def parseInt_eval)
  have p4: "parseInt (size_field (sampleFile ''1610612736'')) = Some 1610612736"
    by (simp add: sampleFile_def parseInt_eval)
  have v: "fixed2 (hundredths 1536 1024) = ''1.50''"
    "numberToString (- 7) = ''-7''"
    "fixed2 (hundredths 1048576 (1024 * 1024)) = ''1.00''"
    "fixed2 (hundredths 1610612736 (1024 * 1024 * 1024)) = ''1.50''"
    by (simp_all add: format_eval)
  show ?thesis
    using formattedSize_thresholds [OF p1] formattedSize_thresholds [OF p2]
      formattedSize_thresholds [OF p3] formattedSize_thresholds [OF p4] p1 p2 p3 p4 v
    by simp
qed

text \<open>
  C9. The check of the API key comes before the form is read: for every request that
  arrives while the key is not configured, the proxy answers 500 and has neither read
  the form nor called the network. A request that lacks the key and the \<open>file\<close> field
  therefore gets 500, not 400.
\<close>

theorem key_check_precedes_form:
  assumes "\<not> truthy (NEXT_PUBLIC_WEBHASH_API_KEY pe)"
  shows "proxy_POST pe = (json (Error ''WebHash API key is not configured'') 500, []) \<and>
         status (fst (proxy_POST pe)) = 500 \<and> status (fst (proxy_POST pe)) \<noteq> 400 \<and>
         ReadFormData \<notin> set (snd (proxy_POST pe))"
  using assms by (simp add: proxy_POST_def json_def)

theorem key_check_precedes_form_witness:
  "\<not> truthy (NEXT_PUBLIC_WEBHASH_API_KEY (sampleProxyEnv None [] okUpstream)) \<and>
   formData_get [] ''file'' = None \<and>
   status (fst (proxy_POST (sampleProxyEnv None [] okUpstream))) = 500 \<and>
   snd (proxy_POST (sampleProxyEnv None [] okUpstream)) = []"
proof -
  have k: "\<not> truthy (NEXT_PUBLIC_WEBHASH_API_KEY (sampleProxyEnv None [] okUpstream))"
    by (simp add: sampleProxyEnv_def truthy_def)
  show ?thesis
    using key_check_precedes_form [OF k] k by (simp add: formData_get_def)
qed

text \<open>
  C10. The create takes any size whose leading characters parse as an integer, a
  negative one or one followed by other characters (\<open>-100\<close> parses as minus 100,
  \<open>12abc\<close> as 12): with the database calls succeeding the record is stored, the answer
  is 200 and \<open>totalStorageUsed\<close> moves by the parsed value, so that a negative size
  makes the counter strictly smaller. The parsed value and the new counter are taken in
  the range where a Number holds them exactly.
\<close>

theorem create_accepts_any_parsed_size:
  assumes "allPresent d" and "connected e w" and "createErr e = None"
    and "upsertRes e = UpsertDoc" and "parseInt (str (body_size d)) = Some n"
    and "safeInteger n"
    and "safeInteger (totalStorageUsed w (str (body_walletAddress d)) + n)"
  shows "status (fst (POST (Returns d) e w)) = 200 \<and>
         files (snd (POST (Returns d) e w)) = files w @ [createdDoc e d] \<and>
         size_field (createdDoc e d) = str (body_size d) \<and>
         totalStorageUsed (snd (POST (Returns d) e w)) (str (body_walletAddress d)) =
           totalStorageUsed w (str (body_walletAddress d)) + n \<and>
         (n < 0 \<longrightarrow>
            totalStorageUsed (snd (POST (Returns d) e w)) (str (body_walletAddress d)) <
              totalStorageUsed w (str (body_walletAddress d))) \<and>
         parseInt ''-100'' = Some (- 100) \<and> parseInt ''12abc'' = Some 12"
proof -
  note ok = POST_ok [OF assms(1-3) assms(5) assms(4)]
  have t: "totalStorageUsed (snd (POST (Returns d) e w)) (str (body_walletAddress d)) =
      totalStorageUsed w (str (body_walletAddress d)) + n"
    by (simp add: totalStorageUsed_def [of "snd (POST (Returns d) e w)"] ok(3))
  have p: "parseInt ''-100'' = Some (- 100)" "parseInt ''12abc'' = Some 12"
    by (simp_all add: parseInt_eval)
  show ?thesis
    using t p by (simp add: ok(1) ok(2) createdDoc_def)
qed

theorem create_accepts_any_parsed_size_witness:
  "allPresent (sampleBody ''-100'') \<and> connected okEnv emptyWorld \<and> createErr okEnv = None \<and>
   upsertRes okEnv = UpsertDoc \<and>
   parseInt (str (body_size (sampleBody ''-100''))) = Some (- 100) \<and> (- 100 :: int) < 0 \<and>
   safeInteger (- 100) \<and> safeInteger (totalStorageUsed emptyWorld ''0xA'' + (- 100)) \<and>
   status (fst (POST (Returns (sampleBody ''-100'')) okEnv emptyWorld)) = 200 \<and>
   totalStorageUsed emptyWorld ''0xA'' = 0 \<and>
   totalStorageUsed (snd (POST (Returns (sampleBody ''-100'')) okEnv emptyWorld)) ''0xA'' = - 100"
proof -
  have p: "parseInt (str (body_size (sampleBody ''-100''))) = Some (- 100)"
    by (simp add: sample_defs parseInt_eval)
  have a: "allPresent (sampleBody ''-100'')"
    by (simp add: sample_defs)
  have c: "connected okEnv emptyWorld"
    by (simp add: sample_defs)
  have e: "createErr okEnv = None" "upsertRes okEnv = UpsertDoc"
    by (simp_all add: sample_defs)
  have u: "totalStorageUsed emptyWorld ''0xA'' = 0"
    "str (body_walletAddress (sampleBody ''-100'')) = ''0xA''"
    by (simp_all add: sample_defs totalStorageUsed_def)
  have s: "safeInteger (- 100)"
    "safeInteger (totalStorageUsed emptyWorld (str (body_walletAddress (sampleBody ''-100''))) +
       (- 100))"
    by (simp_all add: safeInteger_def u)
  show ?thesis
    using create_accepts_any_parsed_size [OF a c e p s] a c e p u s by simp
qed

text \<open>
  C7, as the claim states it, fails twice. A response that is not a success can carry a
  status that the Response constructor does not accept: at 304 the call of
  \<open>NextResponse.json\<close> throws and the outer catch answers 500, not 304. And where the
  status is relayed, at 404, the body is not the external body itself but an object with
  an \<open>error\<close> line and the external text under \<open>details\<close>.
\<close>

theorem upstream_error_not_relayed_counterexample:
  "\<not> ok notModifiedUpstream \<and> upstreamStatus notModifiedUpstream = 304 \<and>
   status (fst (proxy_POST
     (sampleProxyEnv (Some ''k1'') [(''file'', FileValue ''a.txt'' ''text/plain'' 3)]
        notModifiedUpstream))) = 500 \<and>
   \<not> ok errorUpstream \<and> text_result errorUpstream = Returns ''no such route'' \<and>
   body (fst (proxy_POST
     (sampleProxyEnv (Some ''k1'') [(''file'', FileValue ''a.txt'' ''text/plain'' 3)]
        errorUpstream))) =
     ErrorWith ''WebHash API error: 404 Not Found'' ''no such route'' \<and>
   body (fst (proxy_POST
     (sampleProxyEnv (Some ''k1'') [(''file'', FileValue ''a.txt'' ''text/plain'' 3)]
        errorUpstream))) \<noteq> Relayed ''no such route''"
  by (simp add: proxy_POST_def sampleProxyEnv_def notModifiedUpstream_def errorUpstream_def
      truthy_def truthyValue_def formData_get_def NextResponse_json_def validStatus_def
      numberToString_def digits.simps digitChar_def)

text \<open>
  C7, amended. For every response of the external API that is not a success and whose
  status the Response constructor accepts (200 to 599, not 204, 205 or 304), the key being
  configured and the form carrying a file so that the call is made: the proxy answers
  with the status code of that response, and with a JSON body that names the status
  under \<open>error\<close> and carries the text of the external body unchanged under
  \<open>details\<close>; when that text cannot be read, \<open>details\<close> is
  \<open>Could not read error response\<close>.
\<close>

theorem upstream_error_relayed:
  assumes "truthy (NEXT_PUBLIC_WEBHASH_API_KEY pe)"
    and "request_formData pe = Returns fd" and "truthyValue (formData_get fd ''file'')"
    and "fetch_result pe = Returns r" and "\<not> ok r" and "validStatus (upstreamStatus r)"
  shows "status (fst (proxy_POST pe)) = upstreamStatus r \<and>
         (\<forall>t. text_result r = Returns t \<longrightarrow>
            body (fst (proxy_POST pe)) =
              ErrorWith (''WebHash API error: '' @ numberToString (int (upstreamStatus r)) @
                         '' '' @ statusText r) t) \<and>
         (\<forall>m. text_result r = Throws m \<longrightarrow>
            body (fst (proxy_POST pe)) =
              ErrorWith (''WebHash API error: '' @ numberToString (int (upstreamStatus r)) @
                         '' '' @ statusText r) ''Could not read error response'')"
  using assms by (simp add: proxy_POST_def Let_def NextResponse_json_def)

theorem upstream_error_relayed_witness:
  "truthy (NEXT_PUBLIC_WEBHASH_API_KEY
     (sampleProxyEnv (Some ''k1'') [(''file'', FileValue ''a.txt'' ''text/plain'' 3)]
        errorUpstream)) \<and>
   truthyValue (formData_get [(''file'', FileValue ''a.txt'' ''text/plain'' 3)] ''file'') \<and>
   \<not> ok errorUpstream \<and> validStatus (upstreamStatus errorUpstream) \<and>
   text_result errorUpstream = Returns ''no such route'' \<and>
   status (fst (proxy_POST
     (sampleProxyEnv (Some ''k1'') [(''file'', FileValue ''a.txt'' ''text/plain'' 3)]
        errorUpstream))) = 404 \<and>
   body (fst (proxy_POST
     (sampleProxyEnv (Some ''k1'') [(''file'', FileValue ''a.txt'' ''text/plain'' 3)]
        errorUpstream))) =
     ErrorWith ''WebHash API error: 404 Not Found'' ''no such route''"
proof -
  let ?fd = "[(''file'', FileValue ''a.txt'' ''text/plain'' 3)]"
  let ?pe = "sampleProxyEnv (Some ''k1'') ?fd errorUpstream"
  have k: "truthy (NEXT_PUBLIC_WEBHASH_API_KEY ?pe)"
    by (simp add: sampleProxyEnv_def truthy_def)
  have f: "request_formData ?pe = Returns ?fd"
    by (simp add: sampleProxyEnv_def)
  have v: "truthyValue (formData_get ?fd ''file'')"
    by (simp add: truthyValue_def formData_get_def)
  have r: "fetch_result ?pe = Returns errorUpstream"
    by (simp add: sampleProxyEnv_def)
  have n: "\<not> ok errorUpstream"
    by (simp add: errorUpstream_def)
  have a: "validStatus (upstreamStatus errorUpstream)"
    by (simp add: errorUpstream_def validStatus_def)
  have t: "text_result errorUpstream = Returns ''no such route''"
    "upstreamStatus errorUpstream = 404" "statusText errorUpstream = ''Not Found''"
    by (simp_all add: errorUpstream_def)
  have s: "numberToString 404 = ''404''"
    by (simp add: numberToString_def digits.simps digitChar_def)
  show ?thesis
    using upstream_error_relayed [OF k f v r n a] k v n a t s by simp
qed

text \<open>
  C8, as the claim states it, fails: a form without \<open>file\<close> that arrives while the API
  key is empty is answered 500, by the key check that comes first.
\<close>

theorem missing_file_unconfigured_key_counterexample:
  "request_formData (sampleProxyEnv (Some []) [(''note'', TextValue ''hello'')] okUpstream) =
     Returns [(''note'', TextValue ''hello'')] \<and>
   formData_get [(''note'', TextValue ''hello'')] ''file'' = None \<and>
   status (fst (proxy_POST
     (sampleProxyEnv (Some []) [(''note'', TextValue ''hello'')] okUpstream))) = 500 \<and>
   status (fst (proxy_POST
     (sampleProxyEnv (Some []) [(''note'', TextValue ''hello'')] okUpstream))) \<noteq> 400"
  by (simp add: sampleProxyEnv_def formData_get_def proxy_POST_def truthy_def)

text \<open>
  C8, amended. For every proxy upload whose form lacks the \<open>file\<close> field: when the API
  key is configured the handler answers 400 with \<open>No file found in request\<close>; and,
  whether the key is configured or not, no call to the external API is made.
\<close>

theorem missing_file_rejected:
  assumes "request_formData pe = Returns fd" and "formData_get fd ''file'' = None"
  shows "(truthy (NEXT_PUBLIC_WEBHASH_API_KEY pe) \<longrightarrow>
            fst (proxy_POST pe) = json (Error ''No file found in request'') 400 \<and>
            status (fst (proxy_POST pe)) = 400) \<and>
         (\<forall>url auth b. Fetch url auth b \<notin> set (snd (proxy_POST pe)))"
  using assms by (simp add: proxy_POST_def Let_def truthyValue_def)

theorem missing_file_rejected_witness:
  "request_formData (sampleProxyEnv (Some ''k1'') [(''note'', TextValue ''hello'')] okUpstream) =
     Returns [(''note'', TextValue ''hello'')] \<and>
   formData_get [(''note'', TextValue ''hello'')] ''file'' = None \<and>
   truthy (NEXT_PUBLIC_WEBHASH_API_KEY
     (sampleProxyEnv (Some ''k1'') [(''note'', TextValue ''hello'')] okUpstream)) \<and>
   status (fst (proxy_POST
     (sampleProxyEnv (Some ''k1'') [(''note'', TextValue ''hello'')] okUpstream))) = 400 \<and>
   snd (proxy_POST
     (sampleProxyEnv (Some ''k1'') [(''note'', TextValue ''hello'')] okUpstream)) =
     [ReadFormData]"
proof -
  let ?fd = "[(''note'', TextValue ''hello'')]"
  let ?pe = "sampleProxyEnv (Some ''k1'') ?fd okUpstream"
  have f: "request_formData ?pe = Returns ?fd"
    by (simp add: sampleProxyEnv_def)
  have g: "formData_get ?fd ''file'' = None"
    by (simp add: formData_get_def)
  have k: "truthy (NEXT_PUBLIC_WEBHASH_API_KEY ?pe)"
    by (simp add: sampleProxyEnv_def truthy_def)
  have t: "snd (proxy_POST ?pe) = [ReadFormData]"
    by (simp add: proxy_POST_def sampleProxyEnv_def truthy_def formData_get_def
        truthyValue_def)
  show ?thesis
    using missing_file_rejected [OF f g] f g k t by simp
qed

text \<open>
  C3, as the claim states it, fails: the delete updates the account without upsert, so
  for a record whose wallet has no account (its create stored the record and the upsert
  then threw) the delete answers 200, removes the record and decrements nothing,
  although the size of the record parses as 2048.
\<close>

theorem delete_without_account_counterexample:
  "files orphanRecord = [createdDoc okEnv (sampleBody ''2048'')] \<and>
   parsedSizeOrZero (createdDoc okEnv (sampleBody ''2048'')) = 2048 \<and>
   users orphanRecord ''0xA'' = None \<and>
   status (fst (DELETE (Some ''Qm1'') (Some ''0xA'') okEnv orphanRecord)) = 200 \<and>
   files (snd (DELETE (Some ''Qm1'') (Some ''0xA'') okEnv orphanRecord)) = [] \<and>
   users (snd (DELETE (Some ''Qm1'') (Some ''0xA'') okEnv orphanRecord)) ''0xA'' = None \<and>
   totalStorageUsed (snd (DELETE (Some ''Qm1'') (Some ''0xA'') okEnv orphanRecord)) ''0xA'' \<noteq>
     totalStorageUsed orphanRecord ''0xA'' - 2048"
proof -
  let ?b = "sampleBody ''2048''"
  let ?e = "okEnv\<lparr>upsertRes := UpsertThrows ''connection closed''\<rparr>"
  let ?d1 = "createdDoc okEnv ?b"
  let ?c = "Some ''Qm1''"
  let ?a = "Some ''0xA''"
  let ?w2 = "snd (DELETE ?c ?a okEnv orphanRecord)"
  have p: "parseInt (str (body_size ?b)) = Some 2048"
    by (simp add: sample_defs parseInt_eval)
  have a: "allPresent ?b"
    by (simp add: sample_defs)
  have ce: "connected ?e emptyWorld" "createErr ?e = None"
    "upsertRes ?e = UpsertThrows ''connection closed''" "createdDoc ?e ?b = ?d1"
    by (simp_all add: connected_def okEnv_def createdDoc_def)
  have fe: "files emptyWorld = []" "users emptyWorld = Map.empty"
    by (simp_all add: emptyWorld_def)
  note post = POST_upsert_throws [OF a ce(1) ce(2) p ce(3)]
  have f1: "files orphanRecord = [?d1]"
    unfolding orphanRecord_def by (simp add: post(2) fe ce(4))
  have u1: "users orphanRecord ''0xA'' = None"
    unfolding orphanRecord_def by (simp add: post(3) fe)
  have k: "parsedSizeOrZero ?d1 = 2048"
    using p by (simp add: parsedSizeOrZero_def createdDoc_def)
  have m: "matches ''Qm1'' ''0xA'' ?d1"
    by (simp add: matches_def createdDoc_def sample_defs)
  have s: "str ?c = ''Qm1''" "str ?a = ''0xA''" "truthy ?c" "truthy ?a"
    by (simp_all add: str_def truthy_def)
  have e: "findOneErr okEnv = None" "deleteOneErr okEnv = None" "updateErr okEnv = None"
    "connectOk okEnv"
    by (simp_all add: okEnv_def)
  have c1: "connected okEnv orphanRecord"
    by (simp add: connected_def e)
  have g1: "find (matches (str ?c) (str ?a)) (files orphanRecord) = Some ?d1"
    by (simp add: s f1 m)
  note del = DELETE_ok [OF s(3) s(4) c1 e(1) e(2) e(3) g1]
  have f2: "files ?w2 = []"
    by (simp add: del(2) s f1 m)
  have u2: "users ?w2 ''0xA'' = None"
    by (simp add: del(3) s u1)
  show ?thesis
    using f1 k u1 f2 u2 by (simp add: del(1) totalStorageUsed_def)
qed

text \<open>
  C3, amended. For every delete where a record matching both the content identifier and
  the wallet exists (and the database calls succeed): one such record, the first, is
  deleted; when the wallet has an account, its \<open>totalStorageUsed\<close> is decremented by
  the parsed size of the record (zero when the size does not parse), and when it has
  none, none is created and nothing is decremented; and, the deleted record being the
  only one of that content identifier and wallet, as the data model has it, no match is
  left and a following delete with the same content identifier and wallet answers 404.
  The parsed size and the new counter are taken in the range where a Number holds them
  exactly.
\<close>

theorem delete_removes_and_decrements:
  assumes "truthy cp" and "truthy wp" and "connected e w"
    and "findOneErr e = None" and "deleteOneErr e = None" and "updateErr e = None"
    and "find (matches (str cp) (str wp)) (files w) = Some f"
    and "safeInteger (parsedSizeOrZero f)"
    and "safeInteger (totalStorageUsed w (str wp) - parsedSizeOrZero f)"
    and "findOneErr e' = None"
  shows "status (fst (DELETE cp wp e w)) = 200 \<and>
         files (snd (DELETE cp wp e w)) = removeFirst (matches (str cp) (str wp)) (files w) \<and>
         length (filter (matches (str cp) (str wp)) (files (snd (DELETE cp wp e w)))) + 1 =
           length (filter (matches (str cp) (str wp)) (files w)) \<and>
         (\<forall>t. users w (str wp) = Some t \<longrightarrow>
            users (snd (DELETE cp wp e w)) (str wp) = Some (t - parsedSizeOrZero f)) \<and>
         (users w (str wp) = None \<longrightarrow> users (snd (DELETE cp wp e w)) (str wp) = None) \<and>
         (parseInt (size_field f) = None \<longrightarrow>
            users (snd (DELETE cp wp e w)) (str wp) = users w (str wp)) \<and>
         (length (filter (matches (str cp) (str wp)) (files w)) = 1 \<longrightarrow>
            filter (matches (str cp) (str wp)) (files (snd (DELETE cp wp e w))) = [] \<and>
            status (fst (DELETE cp wp e' (snd (DELETE cp wp e w)))) = 404)"
proof -
  let ?P = "matches (str cp) (str wp)"
  let ?w' = "snd (DELETE cp wp e w)"
  note d = DELETE_ok [OF assms(1-7)]
  have c': "connected e' ?w'"
    by (simp add: connected_def d(5))
  have nf: "status (fst (DELETE cp wp e' ?w')) = 404 \<longleftrightarrow>
      length (filter ?P (files w)) \<le> 1"
    using DELETE_404_iff [OF assms(1) assms(2) c' assms(10)]
    by (simp add: d(2) find_removeFirst)
  have ex: "\<exists>x \<in> set (files w). ?P x"
    using assms(7) by (auto simp: find_Some_iff)
  note cnt = filter_removeFirst [OF ex]
  have u: "users ?w' (str wp) = map_option (\<lambda>t. t - parsedSizeOrZero f) (users w (str wp))"
    by (simp add: d(3) split: option.splits)
  have z: "parseInt (size_field f) = None \<longrightarrow> users ?w' (str wp) = users w (str wp)"
    by (cases "users w (str wp)") (simp_all add: u parsedSizeOrZero_def)
  have g: "length (filter ?P (files w)) = 1 \<longrightarrow> filter ?P (files ?w') = []"
  proof
    assume "length (filter ?P (files w)) = 1"
    with cnt have "length (filter ?P (removeFirst ?P (files w))) = 0"
      by linarith
    then show "filter ?P (files ?w') = []"
      by (simp only: d(2) length_0_conv)
  qed
  show ?thesis
    using nf u z g cnt by (simp add: d(1) d(2))
qed

theorem delete_removes_and_decrements_witness:
  "truthy (Some ''Qm1'') \<and> truthy (Some ''0xA'') \<and>
   connected okEnv (snd (POST (Returns (sampleBody ''12abc'')) okEnv emptyWorld)) \<and>
   find (matches ''Qm1'' ''0xA'')
     (files (snd (POST (Returns (sampleBody ''12abc'')) okEnv emptyWorld))) =
     Some (createdDoc okEnv (sampleBody ''12abc'')) \<and>
   parsedSizeOrZero (createdDoc okEnv (sampleBody ''12abc'')) = 12 \<and> safeInteger 12 \<and>
   safeInteger (totalStorageUsed (snd (POST (Returns (sampleBody ''12abc'')) okEnv emptyWorld))
     ''0xA'' - 12) \<and>
   length (filter (matches ''Qm1'' ''0xA'')
     (files (snd (POST (Returns (sampleBody ''12abc'')) okEnv emptyWorld)))) = 1 \<and>
   users (snd (POST (Returns (sampleBody ''12abc'')) okEnv emptyWorld)) ''0xA'' = Some 12 \<and>
   status (fst (DELETE (Some ''Qm1'') (Some ''0xA'') okEnv
     (snd (POST (Returns (sampleBody ''12abc'')) okEnv emptyWorld)))) = 200 \<and>
   files (snd (DELETE (Some ''Qm1'') (Some ''0xA'') okEnv
     (snd (POST (Returns (sampleBody ''12abc'')) okEnv emptyWorld)))) = [] \<and>
   users (snd (DELETE (Some ''Qm1'') (Some ''0xA'') okEnv
     (snd (POST (Returns (sampleBody ''12abc'')) okEnv emptyWorld)))) ''0xA'' = Some 0 \<and>
   status (fst (DELETE (Some ''Qm1'') (Some ''0xA'') laterEnv
     (snd (DELETE (Some ''Qm1'') (Some ''0xA'') okEnv
       (snd (POST (Returns (sampleBody ''12abc'')) okEnv emptyWorld)))))) = 404"
proof -
  let ?b = "sampleBody ''12abc''"
  let ?w1 = "snd (POST (Returns ?b) okEnv emptyWorld)"
  let ?d1 = "createdDoc okEnv ?b"
  let ?c = "Some ''Qm1''"
  let ?a = "Some ''0xA''"
  have p: "parseInt (str (body_size ?b)) = Some 12"
    by (simp add: sample_defs parseInt_eval)
  have a: "allPresent ?b"
    by (simp add: sample_defs)
  have f1: "files ?w1 = [?d1]"
    using POST_ok(2) [OF a _ _ p, of okEnv emptyWorld] by (simp add: sample_defs)
  have u1: "users ?w1 ''0xA'' = Some 12"
    using POST_ok(3) [OF a _ _ p, of okEnv emptyWorld]
    by (simp add: sample_defs totalStorageUsed_def)
  have m: "matches ''Qm1'' ''0xA'' ?d1"
    by (simp add: matches_def createdDoc_def sample_defs)
  have s: "str ?c = ''Qm1''" "str ?a = ''0xA''" "truthy ?c" "truthy ?a"
    by (simp_all add: str_def truthy_def)
  have e: "findOneErr okEnv = None" "deleteOneErr okEnv = None" "updateErr okEnv = None"
    "connectOk okEnv" "findOneErr laterEnv = None"
    by (simp_all add: okEnv_def laterEnv_def)
  have c1: "connected okEnv ?w1"
    by (simp add: connected_def e)
  have g1: "find (matches (str ?c) (str ?a)) (files ?w1) = Some ?d1"
    by (simp add: s f1 m)
  have k: "parsedSizeOrZero ?d1 = 12"
    using p by (simp add: parsedSizeOrZero_def createdDoc_def)
  have t1: "totalStorageUsed ?w1 ''0xA'' = 12"
    by (simp add: totalStorageUsed_def u1)
  have si: "safeInteger (parsedSizeOrZero ?d1)"
    "safeInteger (totalStorageUsed ?w1 (str ?a) - parsedSizeOrZero ?d1)"
    by (simp_all add: k s t1 safeInteger_def)
  have si': "safeInteger 12" "safeInteger (totalStorageUsed ?w1 ''0xA'' - 12)"
    by (simp_all add: t1 safeInteger_def)
  show ?thesis
    using delete_removes_and_decrements [OF s(3) s(4) c1 e(1) e(2) e(3) g1 si e(5)]
      s c1 g1 u1 k si'
    by (simp add: f1 m)
qed

text \<open>
  C4, as the claim states it, fails when a list overlaps the mutation: the list handler
  stores its result after the \<open>await\<close> of its query. A list whose query is answered
  before a create runs, and which goes on after the create has answered 200, stores the
  records read before the create; the next list, issued after the create, is a hit and
  returns that result, without the record that is stored.
\<close>

theorem stale_entry_after_overlapping_list_counterexample:
  "fst (GET_query (Some ''0xA'') okEnv emptyWorld) = Inr [] \<and>
   status (fst (POST (Returns (sampleBody ''2048'')) okEnv
     (snd (GET_query (Some ''0xA'') okEnv emptyWorld)))) = 200 \<and>
   files staleWorld = [createdDoc okEnv (sampleBody ''2048'')] \<and>
   queryFiles (files staleWorld) ''0xA'' = [createdDoc okEnv (sampleBody ''2048'')] \<and>
   fst (GET (Some ''0xA'') laterEnv staleWorld) = json (Files []) 200"
proof -
  let ?b = "sampleBody ''2048''"
  let ?a = "Some ''0xA''"
  let ?d1 = "createdDoc okEnv ?b"
  let ?w1 = "snd (GET_query ?a okEnv emptyWorld)"
  let ?w2 = "snd (POST (Returns ?b) okEnv ?w1)"
  have s: "str ?a = ''0xA''" "truthy ?a" "body_walletAddress ?b = ?a"
    by (simp_all add: str_def truthy_def sampleBody_def)
  have e: "connectOk okEnv" "createErr okEnv = None" "upsertRes okEnv = UpsertDoc"
    "now2 okEnv = 5002" "now1 laterEnv = 9000"
    by (simp_all add: okEnv_def laterEnv_def)
  have q: "fst (GET_query ?a okEnv emptyWorld) = Inr []"
    and q1: "files ?w1 = []" "fileListCache ?w1 = Map.empty"
    by (simp_all add: GET_query_def db_defs cacheLookup_def queryFiles_def emptyWorld_def
        okEnv_def truthy_def str_def Let_def)
  have p: "parseInt (str (body_size ?b)) = Some 2048"
    by (simp add: sample_defs parseInt_eval)
  have a: "allPresent ?b"
    by (simp add: sample_defs)
  have c: "connected okEnv ?w1"
    by (simp add: connected_def e)
  note post = POST_ok [OF a c e(2) p e(3)]
  have st: "status (fst (POST (Returns ?b) okEnv ?w1)) = 200"
    by (simp add: post(1))
  have f2: "files ?w2 = [?d1]"
    by (simp add: post(2) q1)
  have k2: "fileListCache ?w2 = Map.empty"
    by (simp add: post(4) q1)
  have f3: "files staleWorld = [?d1]"
    unfolding staleWorld_def by (simp add: GET_store_def Let_def f2)
  have k3: "fileListCache staleWorld (cacheKey ''0xA'') = Some \<lparr>data = [], timestamp = 5002\<rparr>"
    unfolding staleWorld_def by (simp add: GET_store_def Let_def k2 s e)
  have m: "walletAddress ?d1 = ''0xA''"
    by (simp add: createdDoc_def sample_defs)
  have l: "cacheLookup staleWorld (str ?a) (now1 laterEnv) =
      Some \<lparr>data = [], timestamp = 5002\<rparr>"
    by (simp add: cacheLookup_def s k3 e CACHE_TTL_def)
  have g: "fst (GET ?a laterEnv staleWorld) = json (Files []) 200"
    by (simp add: GET_hit [OF s(2) l])
  show ?thesis
    using q st f3 g by (simp add: queryFiles_single [OF m])
qed

text \<open>
  C4, amended. Every create and every delete whose checks pass and whose database calls
  succeed answers 200, and one that answers 200 has removed the list-cache entry of its
  wallet, and no other, before it returns. So, requests being handled one after the
  other (no list for the wallet in flight across the mutation), no lookup for that
  wallet is a hit in the state the mutation leaves, and a list handled next, when it
  answers 200, has asked the database and returns the decorated records as they are
  stored after the mutation.
\<close>

theorem mutation_invalidates_cache:
  "(allPresent d \<and> connected e w \<and> createErr e = None \<and> upsertRes e = UpsertDoc \<and>
    parseInt (str (body_size d)) \<noteq> None \<longrightarrow>
      status (fst (POST (Returns d) e w)) = 200) \<and>
   (status (fst (POST (Returns d) e w)) = 200 \<longrightarrow>
      fileListCache (snd (POST (Returns d) e w)) =
        (fileListCache w)(cacheKey (str (body_walletAddress d)) := None) \<and>
      (\<forall>now. cacheLookup (snd (POST (Returns d) e w)) (str (body_walletAddress d)) now = None) \<and>
      (\<forall>e2. status (fst (GET (body_walletAddress d) e2 (snd (POST (Returns d) e w)))) = 200 \<longrightarrow>
         fst (GET (body_walletAddress d) e2 (snd (POST (Returns d) e w))) =
           json (Files (map transform
             (queryFiles (files (snd (POST (Returns d) e w))) (str (body_walletAddress d))))) 200 \<and>
         dbLog (snd (GET (body_walletAddress d) e2 (snd (POST (Returns d) e w)))) =
           dbLog (snd (POST (Returns d) e w)) @ [Find])) \<and>
   (truthy cp \<and> truthy wp \<and> connected e w \<and> deleteCallsOk e \<and>
    find (matches (str cp) (str wp)) (files w) \<noteq> None \<longrightarrow>
      status (fst (DELETE cp wp e w)) = 200) \<and>
   (status (fst (DELETE cp wp e w)) = 200 \<longrightarrow>
      fileListCache (snd (DELETE cp wp e w)) = (fileListCache w)(cacheKey (str wp) := None) \<and>
      (\<forall>now. cacheLookup (snd (DELETE cp wp e w)) (str wp) now = None) \<and>
      (\<forall>e2. status (fst (GET wp e2 (snd (DELETE cp wp e w)))) = 200 \<longrightarrow>
         fst (GET wp e2 (snd (DELETE cp wp e w))) =
           json (Files (map transform
             (queryFiles (files (snd (DELETE cp wp e w))) (str wp)))) 200 \<and>
         dbLog (snd (GET wp e2 (snd (DELETE cp wp e w)))) =
           dbLog (snd (DELETE cp wp e w)) @ [Find]))"
proof (intro conjI impI allI)
  assume h: "allPresent d \<and> connected e w \<and> createErr e = None \<and> upsertRes e = UpsertDoc \<and>
    parseInt (str (body_size d)) \<noteq> None"
  then obtain n where "parseInt (str (body_size d)) = Some n"
    by auto
  with h show "status (fst (POST (Returns d) e w)) = 200"
    by (simp add: POST_ok(1))
next
  assume s: "status (fst (POST (Returns d) e w)) = 200"
  note p = POST_200_cache [OF s]
  show "fileListCache (snd (POST (Returns d) e w)) =
      (fileListCache w)(cacheKey (str (body_walletAddress d)) := None)"
    by (rule POST_200_cache_eq [OF s])
  have n: "fileListCache (snd (POST (Returns d) e w)) (cacheKey (str (body_walletAddress d))) = None"
    using p by simp
  show "cacheLookup (snd (POST (Returns d) e w)) (str (body_walletAddress d)) now = None" for now
    by (rule cacheLookup_None [OF n])
  fix e2
  assume g: "status (fst (GET (body_walletAddress d) e2 (snd (POST (Returns d) e w)))) = 200"
  have t: "truthy (body_walletAddress d)" and c: "dbConnectionPromise (snd (POST (Returns d) e w))"
    using p by simp_all
  note a = GET_after_invalidation [OF t n c g]
  show "fst (GET (body_walletAddress d) e2 (snd (POST (Returns d) e w))) =
      json (Files (map transform
        (queryFiles (files (snd (POST (Returns d) e w))) (str (body_walletAddress d))))) 200"
    using a by simp
  show "dbLog (snd (GET (body_walletAddress d) e2 (snd (POST (Returns d) e w)))) =
      dbLog (snd (POST (Returns d) e w)) @ [Find]"
    using a by simp
next
  assume h: "truthy cp \<and> truthy wp \<and> connected e w \<and> deleteCallsOk e \<and>
    find (matches (str cp) (str wp)) (files w) \<noteq> None"
  then obtain f where "find (matches (str cp) (str wp)) (files w) = Some f"
    by auto
  with h show "status (fst (DELETE cp wp e w)) = 200"
    by (simp add: DELETE_ok(1) deleteCallsOk_def)
next
  assume s: "status (fst (DELETE cp wp e w)) = 200"
  note p = DELETE_200 [OF s]
  show "fileListCache (snd (DELETE cp wp e w)) = (fileListCache w)(cacheKey (str wp) := None)"
    by (rule DELETE_200_cache_eq [OF s])
  have n: "fileListCache (snd (DELETE cp wp e w)) (cacheKey (str wp)) = None"
    using p by simp
  show "cacheLookup (snd (DELETE cp wp e w)) (str wp) now = None" for now
    by (rule cacheLookup_None [OF n])
  fix e2
  assume g: "status (fst (GET wp e2 (snd (DELETE cp wp e w)))) = 200"
  have t: "truthy wp"
    by (rule DELETE_200_truthy [OF s])
  have c: "dbConnectionPromise (snd (DELETE cp wp e w))"
    using p by simp
  note a = GET_after_invalidation [OF t n c g]
  show "fst (GET wp e2 (snd (DELETE cp wp e w))) =
      json (Files (map transform (queryFiles (files (snd (DELETE cp wp e w))) (str wp)))) 200"
    using a by simp
  show "dbLog (snd (GET wp e2 (snd (DELETE cp wp e w)))) = dbLog (snd (DELETE cp wp e w)) @ [Find]"
    using a by simp
qed

theorem mutation_invalidates_cache_witness:
  "fileListCache cachedWorld (cacheKey ''0xA'') = Some \<lparr>data = [], timestamp = 5002\<rparr> \<and>
   allPresent (sampleBody ''2048'') \<and> connected okEnv cachedWorld \<and> createErr okEnv = None \<and>
   upsertRes okEnv = UpsertDoc \<and> parseInt (str (body_size (sampleBody ''2048''))) \<noteq> None \<and>
   status (fst (POST (Returns (sampleBody ''2048'')) okEnv cachedWorld)) = 200 \<and>
   fileListCache (snd (POST (Returns (sampleBody ''2048'')) okEnv cachedWorld))
     (cacheKey ''0xA'') = None \<and>
   status (fst (GET (Some ''0xA'') laterEnv
     (snd (POST (Returns (sampleBody ''2048'')) okEnv cachedWorld)))) = 200 \<and>
   fst (GET (Some ''0xA'') laterEnv
     (snd (POST (Returns (sampleBody ''2048'')) okEnv cachedWorld))) =
     json (Files [transform (createdDoc okEnv (sampleBody ''2048''))]) 200 \<and>
   fileListCache listedWorld (cacheKey ''0xA'') =
     Some \<lparr>data = [transform (createdDoc okEnv (sampleBody ''2048''))], timestamp = 5002\<rparr> \<and>
   truthy (Some ''Qm1'') \<and> truthy (Some ''0xA'') \<and> connected okEnv listedWorld \<and>
   deleteCallsOk okEnv \<and>
   find (matches ''Qm1'' ''0xA'') (files listedWorld) \<noteq> None \<and>
   status (fst (DELETE (Some ''Qm1'') (Some ''0xA'') okEnv listedWorld)) = 200 \<and>
   fileListCache (snd (DELETE (Some ''Qm1'') (Some ''0xA'') okEnv listedWorld))
     (cacheKey ''0xA'') = None \<and>
   status (fst (GET (Some ''0xA'') laterEnv
     (snd (DELETE (Some ''Qm1'') (Some ''0xA'') okEnv listedWorld)))) = 200 \<and>
   fst (GET (Some ''0xA'') laterEnv
     (snd (DELETE (Some ''Qm1'') (Some ''0xA'') okEnv listedWorld))) = json (Files []) 200"
proof -
  let ?b = "sampleBody ''2048''"
  let ?a = "Some ''0xA''"
  let ?c = "Some ''Qm1''"
  let ?d1 = "createdDoc okEnv ?b"
  let ?w1 = "snd (POST (Returns ?b) okEnv cachedWorld)"
  let ?w2 = "snd (DELETE ?c ?a okEnv listedWorld)"
  have s: "str ?c = ''Qm1''" "str ?a = ''0xA''" "truthy ?c" "truthy ?a"
    "body_walletAddress ?b = ?a"
    by (simp_all add: str_def truthy_def sampleBody_def)
  have e: "findOneErr okEnv = None" "deleteOneErr okEnv = None" "updateErr okEnv = None"
    "connectOk okEnv" "findErr okEnv = None" "createErr okEnv = None" "upsertRes okEnv = UpsertDoc"
    "now2 okEnv = 5002" "findErr laterEnv = None" "connectOk laterEnv" "deleteCallsOk okEnv"
    by (simp_all add: okEnv_def laterEnv_def deleteCallsOk_def)
  have fe: "files emptyWorld = []" "fileListCache emptyWorld = Map.empty"
    by (simp_all add: emptyWorld_def)
  have c0: "connected okEnv w" "connected laterEnv w" for w
    by (simp_all add: connected_def e)
  have p: "parseInt (str (body_size ?b)) = Some 2048"
    by (simp add: sample_defs parseInt_eval)
  have a: "allPresent ?b"
    by (simp add: sample_defs)
  have m: "matches ''Qm1'' ''0xA'' ?d1" "walletAddress ?d1 = ''0xA''"
    by (simp_all add: matches_def createdDoc_def sample_defs)
  \<comment> \<open>the create on a state that holds an entry\<close>
  have l0: "cacheLookup emptyWorld (str ?a) (now1 okEnv) = None"
    by (simp add: cacheLookup_def emptyWorld_def)
  have q0: "queryFiles (files emptyWorld) ''0xA'' = []"
    by (simp add: queryFiles_def emptyWorld_def)
  have k0: "fileListCache cachedWorld (cacheKey ''0xA'') = Some \<lparr>data = [], timestamp = 5002\<rparr>"
    unfolding cachedWorld_def
    using GET_miss_ok(2) [OF s(4) l0 c0(1) e(5)] by (simp add: s q0 e)
  have f0: "files cachedWorld = []"
    unfolding cachedWorld_def
    using GET_miss_ok(4) [OF s(4) l0 c0(1) e(5)] by (simp add: fe)
  note post = POST_ok [OF a c0(1) e(6) p e(7), of cachedWorld]
  have f1: "files ?w1 = [?d1]"
    by (simp add: post(2) f0)
  have n1: "fileListCache ?w1 (cacheKey ''0xA'') = None"
    by (simp add: post(4) s)
  have l1: "cacheLookup ?w1 (str ?a) (now1 laterEnv) = None"
    by (rule cacheLookup_None) (simp add: n1 s)
  have g1: "status (fst (GET ?a laterEnv ?w1)) = 200"
    using GET_miss_ok(1) [OF s(4) l1 c0(2) e(9)] by simp
  \<comment> \<open>the delete on a state that holds an entry\<close>
  note post' = POST_ok [OF a c0(1) e(6) p e(7), of emptyWorld]
  have fo: "files oneFile = [?d1]"
    unfolding oneFile_def by (simp add: post'(2) fe)
  have no: "fileListCache oneFile (cacheKey ''0xA'') = None"
    unfolding oneFile_def by (simp add: post'(4) fe)
  have lo: "cacheLookup oneFile (str ?a) (now1 okEnv) = None"
    by (rule cacheLookup_None) (simp add: no s)
  have kl: "fileListCache listedWorld (cacheKey ''0xA'') =
      Some \<lparr>data = [transform ?d1], timestamp = 5002\<rparr>"
    unfolding listedWorld_def
    using GET_miss_ok(2) [OF s(4) lo c0(1) e(5)]
    by (simp add: s fo e queryFiles_single [OF m(2)])
  have fl: "files listedWorld = [?d1]"
    unfolding listedWorld_def
    using GET_miss_ok(4) [OF s(4) lo c0(1) e(5)] by (simp add: fo)
  have d1: "find (matches (str ?c) (str ?a)) (files listedWorld) = Some ?d1"
    by (simp add: s fl m)
  note del = DELETE_ok [OF s(3) s(4) c0(1) e(1) e(2) e(3) d1]
  have f2: "files ?w2 = []"
    by (simp add: del(2) s fl m)
  have n2: "fileListCache ?w2 (cacheKey ''0xA'') = None"
    by (simp add: del(4) s)
  have l2: "cacheLookup ?w2 (str ?a) (now1 laterEnv) = None"
    by (rule cacheLookup_None) (simp add: n2 s)
  have g2: "status (fst (GET ?a laterEnv ?w2)) = 200"
    using GET_miss_ok(1) [OF s(4) l2 c0(2) e(9)] by simp
  have q2: "queryFiles [] ''0xA'' = []"
    by (simp add: queryFiles_def)
  have d1': "find (matches ''Qm1'' ''0xA'') (files listedWorld) \<noteq> None"
    using d1 by (simp add: s)
  show ?thesis
    using mutation_invalidates_cache [of ?b okEnv cachedWorld ?c ?a]
      mutation_invalidates_cache [of ?b okEnv listedWorld ?c ?a]
      a c0(1) e p g1 g2 k0 kl d1'
    by (simp add: s f1 f2 q2 queryFiles_single [OF m(2)])
qed

text \<open>
  C5. For every list with a wallet address: the lookup is a hit exactly when the wallet
  has an entry and \<open>now - timestamp < 30000\<close>; on a hit the cached list is returned
  and nothing else happens, so no database call is made; on a miss (the connection and
  the query succeeding) the handler asks the database, answers with the decorated
  records and stores them with the time read after the query. Hence a second list for
  the same wallet less than 30 seconds after such a first one, with nothing in between,
  returns the same response and leaves the state, the record of database calls
  included, as it was.
\<close>

theorem list_cache_ttl:
  assumes "truthy wp"
  shows "(cacheLookup w (str wp) now \<noteq> None \<longleftrightarrow>
            (\<exists>c. fileListCache w (cacheKey (str wp)) = Some c \<and> now - timestamp c < 30000)) \<and>
         (\<forall>c. cacheLookup w (str wp) (now1 e) = Some c \<longrightarrow>
            GET wp e w = (json (Files (data c)) 200, w)) \<and>
         (cacheLookup w (str wp) (now1 e) = None \<and> connected e w \<and> findErr e = None \<longrightarrow>
            fst (GET wp e w) = json (Files (map transform (queryFiles (files w) (str wp)))) 200 \<and>
            dbLog (snd (GET wp e w)) =
              dbLog w @ (if dbConnectionPromise w then [] else [Connect]) @ [Find] \<and>
            fileListCache (snd (GET wp e w)) (cacheKey (str wp)) =
              Some \<lparr>data = map transform (queryFiles (files w) (str wp)), timestamp = now2 e\<rparr> \<and>
            (now1 e \<le> now2 e \<and> now1 e' - now1 e < 30000 \<longrightarrow>
               GET wp e' (snd (GET wp e w)) = (fst (GET wp e w), snd (GET wp e w))))"
proof (intro conjI allI impI)
  show "cacheLookup w (str wp) now \<noteq> None \<longleftrightarrow>
      (\<exists>c. fileListCache w (cacheKey (str wp)) = Some c \<and> now - timestamp c < 30000)"
    by (simp add: cacheLookup_def CACHE_TTL_def split: option.splits)
next
  fix c
  assume "cacheLookup w (str wp) (now1 e) = Some c"
  then show "GET wp e w = (json (Files (data c)) 200, w)"
    by (rule GET_hit [OF assms])
next
  assume h: "cacheLookup w (str wp) (now1 e) = None \<and> connected e w \<and> findErr e = None"
  then have l: "cacheLookup w (str wp) (now1 e) = None"
    and c: "connected e w" and f: "findErr e = None"
    by simp_all
  note m = GET_miss_ok [OF assms l c f]
  let ?L = "map transform (queryFiles (files w) (str wp))"
  show r: "fst (GET wp e w) = json (Files ?L) 200"
    by (rule m(1))
  show "dbLog (snd (GET wp e w)) =
      dbLog w @ (if dbConnectionPromise w then [] else [Connect]) @ [Find]"
    by (rule m(3))
  show k: "fileListCache (snd (GET wp e w)) (cacheKey (str wp)) =
      Some \<lparr>data = ?L, timestamp = now2 e\<rparr>"
    by (simp add: m(2))
  assume t: "now1 e \<le> now2 e \<and> now1 e' - now1 e < 30000"
  then have "now1 e' - now2 e < 30000"
    by linarith
  then have "cacheLookup (snd (GET wp e w)) (str wp) (now1 e') =
      Some \<lparr>data = ?L, timestamp = now2 e\<rparr>"
    by (simp add: cacheLookup_def k CACHE_TTL_def)
  from GET_hit [OF assms this]
  show "GET wp e' (snd (GET wp e w)) = (fst (GET wp e w), snd (GET wp e w))"
    by (simp add: r)
qed

theorem list_cache_ttl_witness:
  "truthy (Some ''0xA'') \<and> cacheLookup oneFile ''0xA'' (now1 okEnv) = None \<and>
   connected okEnv oneFile \<and> findErr okEnv = None \<and> now1 okEnv \<le> now2 okEnv \<and>
   now1 laterEnv - now1 okEnv < 30000 \<and>
   fst (GET (Some ''0xA'') okEnv oneFile) =
     json (Files [transform (createdDoc okEnv (sampleBody ''2048''))]) 200 \<and>
   formattedSize (transform (createdDoc okEnv (sampleBody ''2048''))) = ''2.00 KB'' \<and>
   dbLog (snd (GET (Some ''0xA'') okEnv oneFile)) = dbLog oneFile @ [Find] \<and>
   GET (Some ''0xA'') laterEnv (snd (GET (Some ''0xA'') okEnv oneFile)) =
     (json (Files [transform (createdDoc okEnv (sampleBody ''2048''))]) 200,
      snd (GET (Some ''0xA'') okEnv oneFile)) \<and>
   cacheLookup (snd (GET (Some ''0xA'') okEnv oneFile)) ''0xA'' 35001 \<noteq> None \<and>
   cacheLookup (snd (GET (Some ''0xA'') okEnv oneFile)) ''0xA'' 35002 = None"
proof -
  let ?b = "sampleBody ''2048''"
  let ?a = "Some ''0xA''"
  let ?d1 = "createdDoc okEnv ?b"
  let ?w1 = "snd (GET ?a okEnv oneFile)"
  have s: "str ?a = ''0xA''" "truthy ?a"
    by (simp_all add: str_def truthy_def)
  have e: "connectOk okEnv" "findErr okEnv = None" "createErr okEnv = None"
    "upsertRes okEnv = UpsertDoc" "now1 okEnv = 5000" "now2 okEnv = 5002" "now1 laterEnv = 9000"
    by (simp_all add: okEnv_def laterEnv_def)
  have c0: "connected okEnv w" for w
    by (simp add: connected_def e)
  have p: "parseInt (str (body_size ?b)) = Some 2048"
    by (simp add: sample_defs parseInt_eval)
  have a: "allPresent ?b"
    by (simp add: sample_defs)
  note post = POST_ok [OF a c0 e(3) p e(4), of emptyWorld]
  have fe: "files emptyWorld = []" "fileListCache emptyWorld = Map.empty"
    by (simp_all add: emptyWorld_def)
  have f1: "files oneFile = [?d1]"
    unfolding oneFile_def by (simp add: post(2) fe)
  have n1: "fileListCache oneFile (cacheKey ''0xA'') = None"
    unfolding oneFile_def by (simp add: post(4) fe)
  have pr: "dbConnectionPromise oneFile"
    unfolding oneFile_def using POST_200_cache [of ?b okEnv emptyWorld] by (simp add: post(1))
  have l1: "cacheLookup oneFile ''0xA'' (now1 okEnv) = None"
    by (rule cacheLookup_None [OF n1])
  have m: "walletAddress ?d1 = ''0xA''"
    by (simp add: createdDoc_def sample_defs)
  have fm: "formattedSize (transform ?d1) = ''2.00 KB''"
    by (simp add: transform_def createdDoc_def sampleBody_def str_def parseInt_eval format_eval)
  have k: "fileListCache ?w1 (cacheKey ''0xA'') =
      Some \<lparr>data = [transform ?d1], timestamp = 5002\<rparr>"
    using list_cache_ttl [OF s(2), of oneFile _ okEnv] l1 c0 e
    by (simp add: s f1 queryFiles_single [OF m])
  have b: "cacheLookup ?w1 ''0xA'' 35001 \<noteq> None" "cacheLookup ?w1 ''0xA'' 35002 = None"
    using list_cache_ttl [OF s(2), of ?w1 35001] list_cache_ttl [OF s(2), of ?w1 35002]
    by (simp_all add: s k)
  show ?thesis
    using list_cache_ttl [OF s(2), of oneFile _ okEnv laterEnv] l1 c0 e pr b fm
    by (simp add: s f1 queryFiles_single [OF m] prod_eq_iff)
qed

end
